theory Spec2Isabelle
  imports Complex_Main "HOL-Library.Word"
begin

section \<open>JavaScript strings\<close>

text \<open>
  A JavaScript string is a sequence of UTF-16 code units. The functions of
  \<^verbatim>\<open>src/lib/r2/upload.ts\<close> work on code units (a regular expression without the
  \<^verbatim>\<open>u\<close> flag, \<^verbatim>\<open>split\<close>, \<^verbatim>\<open>endsWith\<close>), so a string is a list of 16-bit words.
  \<open>js\<close> writes an ASCII literal of the source as such a string, \<open>ch\<close> one character.
\<close>

type_synonym js_char = "16 word"
type_synonym js_string = "js_char list"

definition ch :: "char \<Rightarrow> js_char" where
  "ch c = of_char c"

definition js :: "string \<Rightarrow> js_string" where
  "js s = map ch s"

text \<open>
  \<^verbatim>\<open>String.prototype.trim\<close>: the white space and line terminator code units of
  ECMAScript are removed from both ends.
\<close>

definition is_white_space :: "js_char \<Rightarrow> bool" where
  "is_white_space c =
     (c = 0x0009 \<or> c = 0x000A \<or> c = 0x000B \<or> c = 0x000C \<or> c = 0x000D \<or> c = 0x0020
      \<or> c = 0x00A0 \<or> c = 0x1680 \<or> (0x2000 \<le> c \<and> c \<le> 0x200A) \<or> c = 0x2028
      \<or> c = 0x2029 \<or> c = 0x202F \<or> c = 0x205F \<or> c = 0x3000 \<or> c = 0xFEFF)"

definition trim :: "js_string \<Rightarrow> js_string" where
  "trim s = rev (dropWhile is_white_space (rev (dropWhile is_white_space s)))"

text \<open>
  \<^verbatim>\<open>String.prototype.toLowerCase\<close>, on the letters A to Z; other code units are
  kept. Outside ASCII the Unicode mapping yields an ASCII letter for U+212A (k) and
  U+0130 (i, followed by U+0307) only, and no key that \<open>guessContentType\<close> looks up
  has a k or U+0307 in it: the value it returns is the one of the full mapping.
\<close>

definition toLowerCase_char :: "js_char \<Rightarrow> js_char" where
  "toLowerCase_char c = (if ch CHR ''A'' \<le> c \<and> c \<le> ch CHR ''Z'' then c + 0x20 else c)"

definition toLowerCase :: "js_string \<Rightarrow> js_string" where
  "toLowerCase s = map toLowerCase_char s"

text \<open>\<^verbatim>\<open>String.prototype.split(sep)\<close> for a separator of one code unit.\<close>

fun split_on :: "js_char \<Rightarrow> js_string \<Rightarrow> js_string list" where
  "split_on sep [] = [[]]"
| "split_on sep (c # cs) =
     (if c = sep then [] # split_on sep cs
      else (case split_on sep cs of
              [] \<Rightarrow> [[c]]
            | seg # segs \<Rightarrow> (c # seg) # segs))"

text \<open>\<^verbatim>\<open>Array.prototype.pop\<close>: the last element, \<^verbatim>\<open>undefined\<close> on an empty array.\<close>

definition pop :: "'a list \<Rightarrow> 'a option" where
  "pop xs = (if xs = [] then None else Some (last xs))"

text \<open>The decimal digits of a non-negative integer, as a template literal prints it.\<close>

fun decimal :: "nat \<Rightarrow> js_string" where
  "decimal n =
     (if n < 10 then [ch CHR ''0'' + of_nat n]
      else decimal (n div 10) @ [ch CHR ''0'' + of_nat (n mod 10)])"

declare decimal.simps [simp del]

text \<open>\<^verbatim>\<open>String.prototype.includes\<close>: the argument occurs as a contiguous part.\<close>

fun str_includes :: "js_string \<Rightarrow> js_string \<Rightarrow> bool" where
  "str_includes [] t = (t = [])"
| "str_includes (c # cs) t = (take (length t) (c # cs) = t \<or> str_includes cs t)"

text \<open>
  \<^verbatim>\<open>Array.prototype.findIndex\<close>: the first index whose element satisfies the
  predicate; \<open>None\<close> is the source's -1.
\<close>

fun findIndex :: "('a \<Rightarrow> bool) \<Rightarrow> 'a list \<Rightarrow> nat option" where
  "findIndex P [] = None"
| "findIndex P (x # xs) =
     (if P x then Some 0 else (case findIndex P xs of None \<Rightarrow> None | Some i \<Rightarrow> Some (Suc i)))"

text \<open>
  A value tested for truthiness that is a string or \<^verbatim>\<open>undefined\<close>/\<^verbatim>\<open>null\<close>:
  only a non-empty string is truthy.
\<close>

definition truthy :: "js_string option \<Rightarrow> bool" where
  "truthy s = (case s of None \<Rightarrow> False | Some v \<Rightarrow> v \<noteq> [])"

section \<open>src/lib/r2/upload.ts\<close>

definition EXT_TO_MIME :: "(js_string \<times> js_string) list" where
  "EXT_TO_MIME =
     [(js ''mp4'', js ''video/mp4''),
      (js ''webm'', js ''video/webm''),
      (js ''ogg'', js ''video/ogg''),
      (js ''mov'', js ''video/mp4''),
      (js ''mp3'', js ''audio/mpeg''),
      (js ''wav'', js ''audio/wav''),
      (js ''png'', js ''image/png''),
      (js ''jpg'', js ''image/jpeg''),
      (js ''jpeg'', js ''image/jpeg''),
      (js ''gif'', js ''image/gif''),
      (js ''webp'', js ''image/webp''),
      (js ''pdf'', js ''application/pdf'')]"

text \<open>
  \<^verbatim>\<open>EXT_TO_MIME[ext]\<close> is a property read on an object literal: a key that is not
  an own property is looked up on \<^verbatim>\<open>Object.prototype\<close>, whose members are objects
  and functions, all of them truthy. A value read from the table is therefore a string
  of the table or an inherited member.
\<close>

definition Object_prototype_names :: "js_string list" where
  "Object_prototype_names =
     [js ''constructor'', js ''__proto__'', js ''hasOwnProperty'', js ''isPrototypeOf'',
      js ''propertyIsEnumerable'', js ''toLocaleString'', js ''toString'', js ''valueOf'',
      js ''__defineGetter__'', js ''__defineSetter__'', js ''__lookupGetter__'',
      js ''__lookupSetter__'']"

datatype js_value = JString js_string | JInherited js_string

definition EXT_TO_MIME_get :: "js_string \<Rightarrow> js_value option" where
  "EXT_TO_MIME_get ext =
     (case map_of EXT_TO_MIME ext of
        Some mime \<Rightarrow> Some (JString mime)
      | None \<Rightarrow> if ext \<in> set Object_prototype_names then Some (JInherited ext) else None)"

definition guessContentType :: "js_string \<Rightarrow> js_string \<Rightarrow> js_value" where
  "guessContentType filename fallback =
     (let ext = (case pop (split_on (ch CHR ''.'') (toLowerCase filename)) of
                   None \<Rightarrow> []
                 | Some e \<Rightarrow> e)
      in case EXT_TO_MIME_get ext of
           Some v \<Rightarrow> v
         | None \<Rightarrow> JString fallback)"

text \<open>The character class \<^verbatim>\<open>[a-zA-Z0-9.-]\<close> of the regular expression.\<close>

definition in_class :: "js_char \<Rightarrow> bool" where
  "in_class c =
     ((ch CHR ''a'' \<le> c \<and> c \<le> ch CHR ''z'') \<or> (ch CHR ''A'' \<le> c \<and> c \<le> ch CHR ''Z'')
      \<or> (ch CHR ''0'' \<le> c \<and> c \<le> ch CHR ''9'') \<or> c = ch CHR ''.'' \<or> c = ch CHR ''-'')"

definition sanitizeFilename :: "js_string \<Rightarrow> js_string" where
  "sanitizeFilename originalName =
     map (\<lambda>c. if in_class c then c else ch CHR ''_'') originalName"

text \<open>
  \<open>generateR2Key\<close> reads the clock and draws a random identifier; the model takes both
  as arguments: \<open>ts\<close> is \<^verbatim>\<open>Date.now()\<close> and \<open>rid\<close> the string of \<^verbatim>\<open>randomUUID()\<close>.
  The optional \<open>folder\<close> is tested for truthiness: \<^verbatim>\<open>undefined\<close> and the empty
  string both take the second branch.
\<close>

definition generateR2Key :: "nat \<Rightarrow> js_string \<Rightarrow> js_string \<Rightarrow> js_string option \<Rightarrow> js_string" where
  "generateR2Key ts rid originalName folder =
     (let safe = sanitizeFilename originalName in
      case folder of
        None \<Rightarrow> decimal ts @ js ''-'' @ rid @ js ''-'' @ safe
      | Some f \<Rightarrow>
          if f \<noteq> [] then f @ js ''/'' @ decimal ts @ js ''-'' @ rid @ js ''-'' @ safe
          else decimal ts @ js ''-'' @ rid @ js ''-'' @ safe)"

definition endsWith :: "js_string \<Rightarrow> js_char \<Rightarrow> bool" where
  "endsWith s c = (s \<noteq> [] \<and> last s = c)"

definition joinPublicUrl :: "js_string \<Rightarrow> js_string \<Rightarrow> js_string" where
  "joinPublicUrl publicBaseUrl key =
     (if publicBaseUrl = [] then key
      else if endsWith publicBaseUrl (ch CHR ''/'') then publicBaseUrl @ key
      else publicBaseUrl @ js ''/'' @ key)"

text \<open>
  The key format as section 4.1 of the specification words it: the folder and a slash
  whenever a folder is supplied.
\<close>

definition spec_generateKey :: "nat \<Rightarrow> js_string \<Rightarrow> js_string \<Rightarrow> js_string option \<Rightarrow> js_string" where
  "spec_generateKey ts rid originalName folder =
     (case folder of None \<Rightarrow> [] | Some f \<Rightarrow> f @ js ''/'')
       @ decimal ts @ js ''-'' @ rid @ js ''-'' @ sanitizeFilename originalName"

section \<open>src/lib/r2/config.ts\<close>

text \<open>
  The second part of \<^verbatim>\<open>src/lib/r2/upload.ts\<close> is the configuration module. It reads
  \<^verbatim>\<open>process.env\<close>, a map from names to strings; a variable that is not set reads as the
  empty string. \<open>warnIfMissing\<close> writes a console warning and returns: loading the
  module throws nothing, whatever the environment.
\<close>

type_synonym process_env = "js_string \<Rightarrow> js_string option"

definition R2_BUCKET_NAME :: "process_env \<Rightarrow> js_string" where
  "R2_BUCKET_NAME env = (case env (js ''R2_BUCKET_NAME'') of None \<Rightarrow> [] | Some v \<Rightarrow> v)"

definition R2_PUBLIC_URL :: "process_env \<Rightarrow> js_string" where
  "R2_PUBLIC_URL env = (case env (js ''R2_PUBLIC_URL'') of None \<Rightarrow> [] | Some v \<Rightarrow> v)"

definition warnIfMissing :: "process_env \<Rightarrow> js_string \<Rightarrow> js_string list" where
  "warnIfMissing env name =
     (let warning = js ''[R2] '' @ name @ js '' is not set in environment variables'' in
      case env name of
        None \<Rightarrow> [warning]
      | Some v \<Rightarrow> if v = [] then [warning] else [])"

definition config_warnings :: "process_env \<Rightarrow> js_string list" where
  "config_warnings env =
     warnIfMissing env (js ''R2_ACCESS_KEY_ID'') @ warnIfMissing env (js ''R2_SECRET_ACCESS_KEY'')
       @ warnIfMissing env (js ''R2_BUCKET_NAME'') @ warnIfMissing env (js ''R2_PUBLIC_URL'')
       @ warnIfMissing env (js ''R2_ACCOUNT_ID'')"

section \<open>The upload route (src/unnamed/part_003)\<close>

record js_file =
  file_name :: js_string
  file_type :: js_string
  file_size :: nat

datatype form_entry = EntryFile js_file | EntryString js_string

record form_data =
  form_file :: "form_entry option"
  form_folder :: "form_entry option"

text \<open>A thrown value is read through \<^verbatim>\<open>err?.message\<close> only: its message, if it has one.\<close>

type_synonym js_error = "js_string option"

record request =
  session_user_id :: "js_error + js_string option"
  formData :: "js_error + form_data"

record upload_params =
  Bucket :: js_string
  Key :: js_string
  ContentType :: js_value
  CacheControl :: js_string
  queueSize :: nat
  partSize :: "nat option"

record progress =
  loaded :: "nat option"
  total :: "nat option"

datatype upload_outcome = Resolved | Rejected js_error

record upload_run =
  progress_events :: "progress list"
  outcome :: upload_outcome

text \<open>
  What the handler reads from outside: the environment variables, the clock, the random
  identifier, the object store, and the double-precision arithmetic of
  \<^verbatim>\<open>Math.round((loaded / total) * 100)\<close>, an integer for a non-zero total.
  \<open>r2_upload\<close> is what \<^verbatim>\<open>upload.done()\<close> does for the given parameters: the
  progress callbacks it fires, in order, and then how its promise settles. An exception
  of \<^verbatim>\<open>Readable.fromWeb\<close> or of the \<^verbatim>\<open>Upload\<close> constructor is a run with no
  callback that is rejected.
\<close>

record runtime =
  process_env :: process_env
  Date_now :: nat
  randomUUID :: js_string
  round_percent :: "nat \<Rightarrow> nat \<Rightarrow> int"
  r2_upload :: "upload_params \<Rightarrow> upload_run"

record done_payload =
  done_key :: js_string
  done_url :: js_string
  done_name :: js_string
  done_contentType :: js_value
  done_size :: nat

datatype sse_event =
    ProgressEvent int nat nat
  | DoneEvent done_payload
  | ErrorEvent js_string

datatype controller_call = Enqueue sse_event | Close

record stream_state =
  lastPercent :: int
  calls :: "controller_call list"

definition error_message :: "js_error \<Rightarrow> js_string" where
  "error_message err =
     (case err of
        None \<Rightarrow> js ''Failed to upload file''
      | Some m \<Rightarrow> if m = [] then js ''Failed to upload file'' else m)"

definition clamp_percent :: "int \<Rightarrow> int" where
  "clamp_percent raw = max 0 (min 99 raw)"

text \<open>
  The two constants the progress callback computes first:
  \<^verbatim>\<open>progress.loaded ?? 0\<close> and \<^verbatim>\<open>progress.total ?? file.size ?? 0\<close>.
\<close>

definition progress_loaded :: "progress \<Rightarrow> nat" where
  "progress_loaded p = (case loaded p of None \<Rightarrow> 0 | Some n \<Rightarrow> n)"

definition progress_total :: "js_file \<Rightarrow> progress \<Rightarrow> nat" where
  "progress_total f p = (case total p of None \<Rightarrow> file_size f | Some n \<Rightarrow> n)"

definition httpUploadProgress :: "runtime \<Rightarrow> js_file \<Rightarrow> progress \<Rightarrow> stream_state \<Rightarrow> stream_state" where
  "httpUploadProgress rt f p s =
     (let l = progress_loaded p;
          t = progress_total f p
      in if t = 0 then s
         else
           let raw = round_percent rt l t;
               percent = clamp_percent raw
           in if percent \<le> lastPercent s then s
              else s\<lparr>lastPercent := percent,
                     calls := calls s @ [Enqueue (ProgressEvent percent l t)]\<rparr>)"

text \<open>
  The stream's state after the progress callbacks \<open>ps\<close> of one upload, from
  \<^verbatim>\<open>let lastPercent = 0\<close> and an empty stream.
\<close>

definition run_callbacks :: "runtime \<Rightarrow> js_file \<Rightarrow> progress list \<Rightarrow> stream_state" where
  "run_callbacks rt f ps = fold (httpUploadProgress rt f) ps \<lparr>lastPercent = 0, calls = []\<rparr>"

definition start :: "runtime \<Rightarrow> js_file \<Rightarrow> js_string \<Rightarrow> js_value \<Rightarrow> upload_params list \<times> controller_call list" where
  "start rt f key contentType =
     (if R2_BUCKET_NAME (process_env rt) = [] then
        ([], [Enqueue (ErrorEvent (error_message (Some (js ''R2_BUCKET_NAME is not set'')))), Close])
      else
        let params = \<lparr>Bucket = R2_BUCKET_NAME (process_env rt), Key = key,
                       ContentType = contentType,
                       CacheControl = js ''public, max-age=31536000, immutable'',
                       queueSize = 1,
                       partSize = (if file_size f > 5 * 1024 * 1024
                                   then Some (5 * 1024 * 1024) else None)\<rparr>;
            run = r2_upload rt params;
            s = run_callbacks rt f (progress_events run)
        in case outcome run of
             Resolved \<Rightarrow>
               ([params],
                calls s @ [Enqueue (DoneEvent
                    \<lparr>done_key = key,
                     done_url = joinPublicUrl (R2_PUBLIC_URL (process_env rt)) key,
                     done_name = file_name f,
                     done_contentType = contentType,
                     done_size = file_size f\<rparr>), Close])
           | Rejected err \<Rightarrow>
               ([params], calls s @ [Enqueue (ErrorEvent (error_message err)), Close]))"

datatype response = JsonResponse nat js_string | EventStream "controller_call list"

record post_result =
  response :: response
  uploads :: "upload_params list"

definition content_type_of :: "js_file \<Rightarrow> js_value" where
  "content_type_of f =
     (if file_type f \<noteq> [] \<and> file_type f \<noteq> js ''application/octet-stream''
      then JString (file_type f)
      else guessContentType (file_name f) (js ''application/octet-stream''))"

definition resolved_folder :: "form_entry option \<Rightarrow> js_string option" where
  "resolved_folder folder =
     (case folder of
        Some (EntryString s) \<Rightarrow> if trim s \<noteq> [] then Some (trim s) else None
      | _ \<Rightarrow> None)"

definition POST :: "runtime \<Rightarrow> request \<Rightarrow> post_result" where
  "POST rt req =
     (case session_user_id req of
        Inl err \<Rightarrow> \<lparr>response = JsonResponse 500 (error_message err), uploads = []\<rparr>
      | Inr None \<Rightarrow> \<lparr>response = JsonResponse 401 (js ''Unauthorized''), uploads = []\<rparr>
      | Inr (Some uid) \<Rightarrow>
          if uid = [] then \<lparr>response = JsonResponse 401 (js ''Unauthorized''), uploads = []\<rparr>
          else
            (case formData req of
               Inl err \<Rightarrow> \<lparr>response = JsonResponse 500 (error_message err), uploads = []\<rparr>
             | Inr form \<Rightarrow>
                 (case form_file form of
                    Some (EntryFile f) \<Rightarrow>
                      let key = generateR2Key (Date_now rt) (randomUUID rt) (file_name f)
                                  (resolved_folder (form_folder form));
                          contentType = content_type_of f;
                          (ups, cs) = start rt f key contentType
                      in \<lparr>response = EventStream cs, uploads = ups\<rparr>
                  | _ \<Rightarrow> \<lparr>response = JsonResponse 400 (js ''Missing file''), uploads = []\<rparr>)))"

text \<open>The percentages of the progress events among the calls on the stream controller.\<close>

fun progress_values :: "controller_call list \<Rightarrow> int list" where
  "progress_values [] = []"
| "progress_values (Enqueue (ProgressEvent p l t) # cs) = p # progress_values cs"
| "progress_values (c # cs) = progress_values cs"

fun is_progress :: "sse_event \<Rightarrow> bool" where
  "is_progress (ProgressEvent p l t) = True"
| "is_progress e = False"

fun is_terminal :: "sse_event \<Rightarrow> bool" where
  "is_terminal (ProgressEvent p l t) = False"
| "is_terminal e = True"

text \<open>
  The exact rounding of a ratio of byte counts to a percentage, half up: what
  \<^verbatim>\<open>Math.round((loaded / total) * 100)\<close> gives when the double arithmetic is exact, as
  it is for the small counts of the examples below.
\<close>

definition exact_round_percent :: "nat \<Rightarrow> nat \<Rightarrow> int" where
  "exact_round_percent l t = int ((200 * l + t) div (2 * t))"

section \<open>The database of the content routes\<close>

text \<open>
  The rows the content routes read through the Prisma client, with the columns the lock
  rules use (\<^verbatim>\<open>userProgress\<close> is returned to the client and read by no rule). A
  price is a nullable number, a percentage a finite number, a position an integer, a
  submission time a timestamp. An \<^verbatim>\<open>orderBy\<close> keeps rows of equal keys in table
  order, as the stable \<^verbatim>\<open>Array.prototype.sort\<close> does. Queries are read-only; a
  failing query (the handlers answer 500) is outside the model.
\<close>

record course =
  course_id :: js_string
  course_isPublished :: bool
  price :: "real option"

record purchase =
  purchase_userId :: js_string
  purchase_courseId :: js_string
  purchase_status :: js_string

record course_chapter =
  chapter_id :: js_string
  chapter_courseId :: js_string
  chapter_position :: int
  chapter_isPublished :: bool
  isFree :: bool
  studyTypes :: "js_string list"
  requirePassingQuiz :: bool
  requiredQuizId :: "js_string option"

record quiz =
  quiz_id :: js_string
  quiz_courseId :: js_string
  quiz_position :: int
  quiz_isPublished :: bool
  quiz_title :: js_string

record quizResult =
  studentId :: js_string
  quizId :: js_string
  percentage :: real
  submittedAt :: int

record user =
  user_id :: js_string
  studyType :: "js_string option"

record database =
  courses :: "course list"
  purchases :: "purchase list"
  chapters :: "course_chapter list"
  quizzes :: "quiz list"
  quizResults :: "quizResult list"
  users :: "user list"

text \<open>The published course of an id, and the purchases of a user for a course.\<close>

definition published_course :: "database \<Rightarrow> js_string \<Rightarrow> course option" where
  "published_course db courseId =
     List.find (\<lambda>c. course_id c = courseId \<and> course_isPublished c) (courses db)"

definition course_purchases :: "database \<Rightarrow> js_string \<Rightarrow> js_string \<Rightarrow> purchase list" where
  "course_purchases db courseId userId =
     filter (\<lambda>p. purchase_courseId p = courseId \<and> purchase_userId p = userId) (purchases db)"

definition active_purchases :: "database \<Rightarrow> js_string \<Rightarrow> js_string \<Rightarrow> purchase list" where
  "active_purchases db courseId userId =
     filter (\<lambda>p. purchase_status p = js ''ACTIVE'') (course_purchases db courseId userId)"

text \<open>\<^verbatim>\<open>orderBy: {position: "asc"}\<close> on the published rows of a course.\<close>

definition published_chapters :: "database \<Rightarrow> js_string \<Rightarrow> course_chapter list" where
  "published_chapters db courseId =
     sort_key chapter_position
       (filter (\<lambda>c. chapter_courseId c = courseId \<and> chapter_isPublished c) (chapters db))"

definition published_quizzes :: "database \<Rightarrow> js_string \<Rightarrow> quiz list" where
  "published_quizzes db courseId =
     sort_key quiz_position
       (filter (\<lambda>q. quiz_courseId q = courseId \<and> quiz_isPublished q) (quizzes db))"

text \<open>
  The results of a student for a quiz, and the query of the required quiz:
  \<^verbatim>\<open>orderBy: {submittedAt: 'desc'}, take: 1\<close>, the most recent result only.
\<close>

definition student_results :: "database \<Rightarrow> js_string \<Rightarrow> js_string \<Rightarrow> quizResult list" where
  "student_results db userId qid =
     filter (\<lambda>r. quizId r = qid \<and> studentId r = userId) (quizResults db)"

definition latest_results :: "database \<Rightarrow> js_string \<Rightarrow> js_string \<Rightarrow> quizResult list" where
  "latest_results db userId qid =
     take 1 (sort_key (\<lambda>r. - submittedAt r) (student_results db userId qid))"

text \<open>
  \<^verbatim>\<open>chapter.requiredQuiz?.quizResults\<close>: the relation is the quiz whose id is
  \<open>requiredQuizId\<close>, with the query above as its results.
\<close>

definition required_quiz_results :: "database \<Rightarrow> js_string \<Rightarrow> course_chapter \<Rightarrow> quizResult list option" where
  "required_quiz_results db userId c =
     (case requiredQuizId c of
        None \<Rightarrow> None
      | Some qid \<Rightarrow>
          (case List.find (\<lambda>q. quiz_id q = qid) (quizzes db) of
             None \<Rightarrow> None
           | Some q \<Rightarrow> Some (latest_results db userId qid)))"

section \<open>The access route (src/app/api/teacher/users/[userId]/progress/route.ts, lines 116 to 170)\<close>

record access_body =
  hasAccess :: bool
  hasPurchase :: bool

datatype 'a http_response = Text nat js_string | Json 'a

definition GET_access :: "database \<Rightarrow> js_string option \<Rightarrow> js_string \<Rightarrow> access_body http_response" where
  "GET_access db userId courseId =
     (case userId of
        None \<Rightarrow> Text 401 (js ''Unauthorized'')
      | Some u \<Rightarrow>
          if u = [] then Text 401 (js ''Unauthorized'')
          else
            (case published_course db courseId of
               None \<Rightarrow> Text 404 (js ''Not found'')
             | Some course \<Rightarrow>
                 let validPurchase =
                       list_ex (\<lambda>purchase. purchase_status purchase = js ''ACTIVE'')
                         (course_purchases db courseId u)
                 in Json \<lparr>hasAccess = validPurchase, hasPurchase = validPurchase\<rparr>))"

text \<open>
  The two signals as section 4.5 and section 6 of the specification word them: access is
  a free course or an active purchase, the purchase signal is the active purchase.
\<close>

definition spec_access_body :: "database \<Rightarrow> js_string \<Rightarrow> course \<Rightarrow> access_body" where
  "spec_access_body db userId c =
     \<lparr>hasAccess = (price c = Some 0 \<or> active_purchases db (course_id c) userId \<noteq> []),
      hasPurchase = (active_purchases db (course_id c) userId \<noteq> [])\<rparr>"

section \<open>The content route (src/app/api/teacher/users/[userId]/progress/route.ts, lines 272 to 497)\<close>

text \<open>
  An item of the merged catalog: a chapter with the results of its required quiz, or a
  quiz with the student's results. The results are \<open>None\<close> where the source has
  \<^verbatim>\<open>undefined\<close>: the relation is not included, or there is no required quiz.
\<close>

datatype content =
    ChapterContent course_chapter "quizResult list option"
  | QuizContent quiz "quizResult list option"

fun content_position :: "content \<Rightarrow> int" where
  "content_position (ChapterContent c rq) = chapter_position c"
| "content_position (QuizContent q rs) = quiz_position q"

fun content_id :: "content \<Rightarrow> js_string" where
  "content_id (ChapterContent c rq) = chapter_id c"
| "content_id (QuizContent q rs) = quiz_id q"

fun is_quiz :: "content \<Rightarrow> bool" where
  "is_quiz (QuizContent q rs) = True"
| "is_quiz (ChapterContent c rq) = False"

text \<open>\<^verbatim>\<open>prevQuiz.quizResults || []\<close>\<close>

fun quiz_results :: "content \<Rightarrow> quizResult list" where
  "quiz_results (QuizContent q rs) = (case rs of None \<Rightarrow> [] | Some r \<Rightarrow> r)"
| "quiz_results (ChapterContent c rq) = []"

text \<open>
  \<^verbatim>\<open>hasAccess = course.price === 0 || course.purchases.length > 0\<close>, on the course
  queried with the user's \<^verbatim>\<open>ACTIVE\<close> purchases.
\<close>

definition course_access :: "course \<Rightarrow> purchase list \<Rightarrow> bool" where
  "course_access c ps = (price c = Some 0 \<or> length ps > 0)"

definition content_hasAccess :: "database \<Rightarrow> js_string option \<Rightarrow> js_string \<Rightarrow> bool" where
  "content_hasAccess db userId courseId =
     (case userId of
        None \<Rightarrow> False
      | Some u \<Rightarrow>
          if u = [] then False
          else
            (case published_course db courseId of
               None \<Rightarrow> False
             | Some c \<Rightarrow> course_access c (active_purchases db courseId u)))"

definition allContentUnsorted :: "database \<Rightarrow> js_string option \<Rightarrow> js_string \<Rightarrow> bool \<Rightarrow> content list" where
  "allContentUnsorted db userId courseId access =
     sort_key content_position
       (map (\<lambda>c. ChapterContent c
                (case userId of
                   None \<Rightarrow> None
                 | Some u \<Rightarrow> if access \<and> u \<noteq> [] then required_quiz_results db u c else None))
            (published_chapters db courseId)
        @ map (\<lambda>q. QuizContent q
                (case userId of
                   None \<Rightarrow> None
                 | Some u \<Rightarrow> if access \<and> u \<noteq> [] then Some (student_results db u (quiz_id q))
                            else None))
            (published_quizzes db courseId))"

text \<open>
  The lock reasons are three Arabic sentences: the course must be bought first; the
  required quiz must be passed with at least 50 percent; the quiz of the given title must
  be passed with at least 50 percent first.
\<close>

datatype lock_reason =
    MustPurchaseCourse
  | MustPassRequiredQuiz
  | MustPassPreviousQuiz js_string

record lock_state =
  isLocked :: bool
  lockReason :: "lock_reason option"

text \<open>The callback of \<^verbatim>\<open>quizResults.reduce\<close>: the result of the higher percentage.\<close>

definition better :: "quizResult \<Rightarrow> quizResult \<Rightarrow> quizResult" where
  "better best current = (if percentage current > percentage best then current else best)"

text \<open>
  The loop \<^verbatim>\<open>for (let i = index - 1; i >= 0; i--)\<close>: \<open>previous_quiz_check items n st\<close>
  runs it from \<open>i = n - 1\<close> down. It stops at the first quiz it meets.
\<close>

fun previous_quiz_check :: "content list \<Rightarrow> nat \<Rightarrow> lock_state \<Rightarrow> lock_state" where
  "previous_quiz_check items 0 st = st"
| "previous_quiz_check items (Suc i) st =
     (case items ! i of
        ChapterContent c rq \<Rightarrow> previous_quiz_check items i st
      | QuizContent prevQuiz rs \<Rightarrow>
          (case (case rs of None \<Rightarrow> [] | Some r \<Rightarrow> r) of
             [] \<Rightarrow> st\<lparr>isLocked := True,
                      lockReason := Some (MustPassPreviousQuiz (quiz_title prevQuiz))\<rparr>
           | r # rest \<Rightarrow>
               let bestResult = foldl better r rest
               in if percentage bestResult < 50
                  then st\<lparr>isLocked := True,
                          lockReason := Some (MustPassPreviousQuiz (quiz_title prevQuiz))\<rparr>
                  else st))"

text \<open>\<^verbatim>\<open>chapter.requiredQuiz?.quizResults?.[0]\<close>\<close>

definition first_result :: "quizResult list option \<Rightarrow> quizResult option" where
  "first_result rq =
     (case rq of
        None \<Rightarrow> None
      | Some rs \<Rightarrow> (case rs of [] \<Rightarrow> None | r # rest \<Rightarrow> Some r))"

definition required_quiz_check :: "bool \<Rightarrow> js_string option \<Rightarrow> course_chapter \<Rightarrow> quizResult list option \<Rightarrow> lock_state \<Rightarrow> lock_state" where
  "required_quiz_check access userId c rq st =
     (if \<not> isLocked st \<and> requirePassingQuiz c \<and> truthy (requiredQuizId c) then
        if \<not> access \<or> \<not> truthy userId then
          st\<lparr>isLocked := True, lockReason := Some MustPurchaseCourse\<rparr>
        else
          (case first_result rq of
             None \<Rightarrow> st\<lparr>isLocked := True, lockReason := Some MustPassRequiredQuiz\<rparr>
           | Some quizResult \<Rightarrow>
               if percentage quizResult < 50
               then st\<lparr>isLocked := True, lockReason := Some MustPassRequiredQuiz\<rparr>
               else st)
      else st)"

definition lock_content :: "bool \<Rightarrow> js_string option \<Rightarrow> content list \<Rightarrow> nat \<Rightarrow> content \<Rightarrow> lock_state" where
  "lock_content access userId items index item =
     (case item of
        ChapterContent c rq \<Rightarrow>
          let st = required_quiz_check access userId c rq \<lparr>isLocked = False, lockReason = None\<rparr>
          in if \<not> isLocked st \<and> access \<and> truthy userId
             then previous_quiz_check items index st else st
      | QuizContent q rs \<Rightarrow>
          if access \<and> truthy userId
          then previous_quiz_check items index \<lparr>isLocked = False, lockReason = None\<rparr>
          else \<lparr>isLocked = False, lockReason = None\<rparr>)"

text \<open>
  The response body: every item of the catalog, in order, with its \<open>isLocked\<close> and
  \<open>lockReason\<close>.
\<close>

definition GET_content :: "database \<Rightarrow> js_string option \<Rightarrow> js_string \<Rightarrow> (content \<times> lock_state) list" where
  "GET_content db userId courseId =
     (let access = content_hasAccess db userId courseId;
          items = allContentUnsorted db userId courseId access
      in map (\<lambda>(index, item). (item, lock_content access userId items index item))
           (enumerate 0 items))"

text \<open>
  The sequential rule as section 4.6 of the specification words it: there is a nearest
  preceding quiz, and the learner has no result for it or the best percentage of all
  their results for it is below 50.
\<close>

definition spec_sequential_lock :: "content list \<Rightarrow> nat \<Rightarrow> bool" where
  "spec_sequential_lock items i =
     (\<exists>j < i. is_quiz (items ! j)
        \<and> (\<forall>k. j < k \<and> k < i \<longrightarrow> \<not> is_quiz (items ! k))
        \<and> (quiz_results (items ! j) = []
            \<or> Max (percentage ` set (quiz_results (items ! j))) < 50))"

text \<open>
  The required-quiz rule as section 4.6 words it: no result, or the best percentage of
  all the learner's results for the required quiz is below 50.
\<close>

definition spec_required_quiz_lock :: "database \<Rightarrow> js_string \<Rightarrow> js_string \<Rightarrow> bool" where
  "spec_required_quiz_lock db userId qid =
     (student_results db userId qid = []
      \<or> Max (percentage ` set (student_results db userId qid)) < 50)"

section \<open>The first-content route (src/unnamed/part_001)\<close>

text \<open>
  The route builds the catalog of the content route: the chapters with the most recent
  result of their required quiz and the quizzes with the learner's results, when the
  learner has access. The three Arabic words of its study type rule are given as code
  units.
\<close>

definition online_spaced :: js_string where
  "online_spaced = [0x0623, 0x0648, 0x0646, 0x0020, 0x0644, 0x0627, 0x064A, 0x0646]"

definition online_joined :: js_string where
  "online_joined = [0x0623, 0x0648, 0x0646, 0x0644, 0x0627, 0x064A, 0x0646]"

definition center_word :: js_string where
  "center_word = [0x0633, 0x0646, 0x062A, 0x0631]"

definition study_type_check :: "bool \<Rightarrow> js_string option \<Rightarrow> course_chapter \<Rightarrow> bool \<Rightarrow> bool" where
  "study_type_check access userStudyType c locked =
     (if \<not> locked \<and> access \<and> truthy userStudyType \<and> length (studyTypes c) > 0 then
        let chapterStudyTypes = map trim (studyTypes c);
            normalizedUserStudyType = trim (case userStudyType of None \<Rightarrow> [] | Some t \<Rightarrow> t);
            hasMatchingStudyType =
              list_ex (\<lambda>chapterStudyType.
                  chapterStudyType = normalizedUserStudyType
                  \<or> (str_includes chapterStudyType online_spaced
                      \<and> str_includes normalizedUserStudyType online_spaced)
                  \<or> (str_includes chapterStudyType online_joined
                      \<and> str_includes normalizedUserStudyType online_joined)
                  \<or> (str_includes chapterStudyType center_word
                      \<and> str_includes normalizedUserStudyType center_word))
                chapterStudyTypes
        in \<not> hasMatchingStudyType
      else locked)"

text \<open>
  Whether the loop over the catalog returns at an item. The sequential loop is the one
  of the content route without the reason; its start index is
  \<^verbatim>\<open>findIndex(c => c.id === item.id)\<close>.
\<close>

definition scan_from_id :: "content list \<Rightarrow> js_string \<Rightarrow> bool" where
  "scan_from_id items cid =
     (case findIndex (\<lambda>c. content_id c = cid) items of
        None \<Rightarrow> False
      | Some currentIndex \<Rightarrow>
          isLocked (previous_quiz_check items currentIndex
            \<lparr>isLocked = False, lockReason = None\<rparr>))"

definition first_accessible :: "bool \<Rightarrow> js_string option \<Rightarrow> content list \<Rightarrow> content \<Rightarrow> bool" where
  "first_accessible access userStudyType items item =
     (case item of
        QuizContent q rs \<Rightarrow>
          let locked = (if access then scan_from_id items (quiz_id q) else False)
          in access \<and> \<not> locked
      | ChapterContent c rq \<Rightarrow>
          let locked1 = study_type_check access userStudyType c False;
              locked2 =
                (if \<not> locked1 \<and> requirePassingQuiz c \<and> truthy (requiredQuizId c) then
                   if \<not> access then True
                   else (case first_result rq of
                           None \<Rightarrow> True
                         | Some quizResult \<Rightarrow> percentage quizResult < 50)
                 else locked1);
              locked3 =
                (if \<not> locked2 \<and> access then scan_from_id items (chapter_id c) else locked2)
          in \<not> locked3 \<and> (access \<or> isFree c))"

datatype content_type = chapter_type | quiz_type

record first_content_body =
  first_id :: "js_string option"
  first_type :: "content_type option"

definition GET_first_content :: "database \<Rightarrow> js_string option \<Rightarrow> js_string \<Rightarrow> first_content_body http_response" where
  "GET_first_content db userId courseId =
     (case userId of
        None \<Rightarrow> Text 401 (js ''Unauthorized'')
      | Some u \<Rightarrow>
          if u = [] then Text 401 (js ''Unauthorized'')
          else
            (case published_course db courseId of
               None \<Rightarrow> Text 404 (js ''Course not found'')
             | Some c \<Rightarrow>
                 let access = course_access c (active_purchases db courseId u);
                     userStudyType =
                       (if access
                        then (case List.find (\<lambda>usr. user_id usr = u) (users db) of
                                None \<Rightarrow> None
                              | Some usr \<Rightarrow> if truthy (studyType usr) then studyType usr else None)
                        else None);
                     items = allContentUnsorted db userId courseId access
                 in (case List.find (first_accessible access userStudyType items) items of
                       None \<Rightarrow> Json \<lparr>first_id = None, first_type = None\<rparr>
                     | Some (QuizContent q rs) \<Rightarrow>
                         Json \<lparr>first_id = Some (quiz_id q), first_type = Some quiz_type\<rparr>
                     | Some (ChapterContent chap rq) \<Rightarrow>
                         Json \<lparr>first_id = Some (chapter_id chap), first_type = Some chapter_type\<rparr>)))"

section \<open>The invariant of the event stream\<close>

text \<open>
  The invariant of the stream's state between two progress callbacks: the percentages
  sent so far increase strictly, \<open>lastPercent\<close> is the last of them (0 before the
  first) and at most 99, and nothing but progress events has been sent.
\<close>

fun is_progress_call :: "controller_call \<Rightarrow> bool" where
  "is_progress_call (Enqueue e) = is_progress e"
| "is_progress_call Close = False"

definition stream_inv :: "stream_state \<Rightarrow> bool" where
  "stream_inv s =
     (sorted_wrt (<) (progress_values (calls s))
      \<and> list_all (\<lambda>p. 0 < p \<and> p \<le> lastPercent s) (progress_values (calls s))
      \<and> lastPercent s = last (0 # progress_values (calls s))
      \<and> 0 \<le> lastPercent s \<and> lastPercent s \<le> 99
      \<and> list_all is_progress_call (calls s))"

section \<open>Example inputs\<close>

definition example_env :: "js_string \<Rightarrow> process_env" where
  "example_env public_url =
     (\<lambda>name. if name = js ''R2_BUCKET_NAME'' then Some (js ''b'')
              else if name = js ''R2_PUBLIC_URL'' then Some public_url
              else None)"

definition example_runtime :: "process_env \<Rightarrow> upload_run \<Rightarrow> runtime" where
  "example_runtime env run =
     \<lparr>process_env = env, Date_now = 17, randomUUID = js ''u1'',
      round_percent = exact_round_percent, r2_upload = (\<lambda>params. run)\<rparr>"

definition example_request :: "js_string \<Rightarrow> js_string \<Rightarrow> request" where
  "example_request fname ftype =
     \<lparr>session_user_id = Inr (Some (js ''s1'')),
      formData = Inr \<lparr>form_file = Some (EntryFile \<lparr>file_name = fname, file_type = ftype,
                                                  file_size = 100\<rparr>),
                      form_folder = None\<rparr>\<rparr>"

definition example_run :: upload_run where
  "example_run =
     \<lparr>progress_events =
        [\<lparr>loaded = Some 10, total = Some 100\<rparr>, \<lparr>loaded = Some 50, total = None\<rparr>,
         \<lparr>loaded = Some 40, total = Some 100\<rparr>, \<lparr>loaded = Some 50, total = Some 100\<rparr>,
         \<lparr>loaded = Some 100, total = Some 100\<rparr>],
      outcome = Resolved\<rparr>"

definition example_calls :: "controller_call list" where
  "example_calls =
     [Enqueue (ProgressEvent 10 10 100), Enqueue (ProgressEvent 50 50 100),
      Enqueue (ProgressEvent 99 100 100),
      Enqueue (DoneEvent \<lparr>done_key = js ''17-u1-a.mp4'', done_url = js ''17-u1-a.mp4'',
         done_name = js ''a.mp4'', done_contentType = JString (js ''video/mp4''),
         done_size = 100\<rparr>),
      Close]"

text \<open>
  Rows of one published course \<open>c1\<close> and one learner \<open>s1\<close>, for the examples of the
  content routes.
\<close>

definition mk_chapter :: "string \<Rightarrow> int \<Rightarrow> bool \<Rightarrow> bool \<Rightarrow> string option \<Rightarrow> course_chapter" where
  "mk_chapter cid pos free req qid =
     \<lparr>chapter_id = js cid, chapter_courseId = js ''c1'', chapter_position = pos,
      chapter_isPublished = True, isFree = free, studyTypes = [],
      requirePassingQuiz = req, requiredQuizId = map_option js qid\<rparr>"

definition mk_quiz :: "string \<Rightarrow> int \<Rightarrow> quiz" where
  "mk_quiz qid pos =
     \<lparr>quiz_id = js qid, quiz_courseId = js ''c1'', quiz_position = pos,
      quiz_isPublished = True, quiz_title = js qid\<rparr>"

definition mk_result :: "string \<Rightarrow> real \<Rightarrow> int \<Rightarrow> quizResult" where
  "mk_result qid pct t =
     \<lparr>studentId = js ''s1'', quizId = js qid, percentage = pct, submittedAt = t\<rparr>"

definition mk_db :: "real option \<Rightarrow> purchase list \<Rightarrow> course_chapter list \<Rightarrow> quiz list \<Rightarrow> quizResult list \<Rightarrow> database" where
  "mk_db p ps chs qs rs =
     \<lparr>courses = [\<lparr>course_id = js ''c1'', course_isPublished = True, price = p\<rparr>],
      purchases = ps, chapters = chs, quizzes = qs, quizResults = rs,
      users = [\<lparr>user_id = js ''s1'', studyType = None\<rparr>]\<rparr>"

text \<open>
  A free course whose chapter \<open>a\<close> requires the quiz \<open>q1\<close> that follows it; the learner
  scored 60 percent at time 1 and 40 percent at time 2.
\<close>

definition retake_db :: database where
  "retake_db =
     mk_db (Some 0) [] [mk_chapter ''a'' 1 False True (Some ''q1'')] [mk_quiz ''q1'' 2]
       [mk_result ''q1'' 60 1, mk_result ''q1'' 40 2]"

text \<open>
  A free course with the sequence quiz \<open>q0\<close>, chapter \<open>a\<close>, quiz \<open>q1\<close>, chapter \<open>b\<close>;
  the learner failed \<open>q0\<close> with 30 percent and has 40 and 60 percent for \<open>q1\<close>.
\<close>

definition sequence_db :: database where
  "sequence_db =
     mk_db (Some 0) []
       [mk_chapter ''a'' 1 False False None, mk_chapter ''b'' 3 False False None]
       [mk_quiz ''q0'' 0, mk_quiz ''q1'' 2]
       [mk_result ''q0'' 30 1, mk_result ''q1'' 40 2, mk_result ''q1'' 60 3]"

text \<open>
  A course with one chapter that is not free and requires no quiz, and no purchase: the
  course is paid (price 100) or free (price 0).
\<close>

definition plain_db :: "real \<Rightarrow> database" where
  "plain_db p = mk_db (Some p) [] [mk_chapter ''a'' 1 False False None] [] []"

text \<open>
  A paid course without a purchase: chapter \<open>a\<close> requires the quiz \<open>q1\<close>, chapter
  \<open>b\<close> requires nothing.
\<close>

definition paid_db :: database where
  "paid_db =
     mk_db (Some 100) []
       [mk_chapter ''a'' 1 False True (Some ''q1''), mk_chapter ''b'' 3 False False None]
       [mk_quiz ''q1'' 2] []"

section \<open>Key generation\<close>

lemma in_class_underscore: "\<not> in_class (ch CHR ''_'')"
  by (simp add: in_class_def ch_def)

text \<open>
  C9 (as amended). The key is the folder and a slash exactly when a non-empty folder is
  supplied, then the timestamp, the random identifier and the sanitized name, joined by
  hyphens. The sanitized name has the length of the original name, keeps every code unit
  of the class [A-Za-z0-9.-] and has an underscore in the place of every other one, so
  all of its code units are in [A-Za-z0-9._-].
\<close>

theorem generateR2Key_format:
  "generateR2Key ts rid originalName folder =
     (case folder of None \<Rightarrow> [] | Some f \<Rightarrow> if f = [] then [] else f @ js ''/'')
       @ decimal ts @ js ''-'' @ rid @ js ''-'' @ sanitizeFilename originalName
   \<and> length (sanitizeFilename originalName) = length originalName
   \<and> (\<forall>i < length originalName.
         sanitizeFilename originalName ! i =
           (if in_class (originalName ! i) then originalName ! i else ch CHR ''_''))
   \<and> (\<forall>c \<in> set (sanitizeFilename originalName). in_class c \<or> c = ch CHR ''_'')"
  by (auto simp: generateR2Key_def sanitizeFilename_def Let_def split: option.splits)

theorem generateR2Key_format_witness:
  "generateR2Key 1700000000000 (js ''u1'') (js ''my file.PDF'') (Some (js ''videos''))
     = js ''videos/1700000000000-u1-my_file.PDF''
   \<and> generateR2Key 1700000000000 (js ''u1'') (js ''my file.PDF'') None
     = js ''1700000000000-u1-my_file.PDF''"
proof -
  have s: "sanitizeFilename (js ''my file.PDF'') = js ''my_file.PDF''"
    by (simp add: sanitizeFilename_def in_class_def js_def ch_def)
  have d: "decimal 1700000000000 = js ''1700000000000''"
    by (simp add: decimal.simps js_def ch_def)
  have n: "js ''videos'' \<noteq> []"
    by (simp add: js_def)
  have k1: "generateR2Key 1700000000000 (js ''u1'') (js ''my file.PDF'') (Some (js ''videos''))
      = js ''videos'' @ js ''/'' @ js ''1700000000000'' @ js ''-'' @ js ''u1'' @ js ''-''
          @ js ''my_file.PDF''"
    using generateR2Key_format [of 1700000000000 "js ''u1''" "js ''my file.PDF''" "Some (js ''videos'')"]
    by (simp add: s d n)
  have k2: "generateR2Key 1700000000000 (js ''u1'') (js ''my file.PDF'') None
      = js ''1700000000000'' @ js ''-'' @ js ''u1'' @ js ''-'' @ js ''my_file.PDF''"
    using generateR2Key_format [of 1700000000000 "js ''u1''" "js ''my file.PDF''" None]
    by (simp add: s d)
  show ?thesis
    unfolding k1 k2 by (simp add: js_def)
qed

theorem generateR2Key_empty_folder_counterexample:
  "generateR2Key 7 (js ''u1'') (js ''a.txt'') (Some (js ''''))
     \<noteq> spec_generateKey 7 (js ''u1'') (js ''a.txt'') (Some (js ''''))"
  by (simp add: generateR2Key_def spec_generateKey_def js_def)

section \<open>Evaluating the examples\<close>

lemma js_nonempty: "js (c # cs) \<noteq> []"
  by (simp add: js_def)

lemma example_runtime_simps:
  "process_env (example_runtime env run) = env"
  "Date_now (example_runtime env run) = 17"
  "randomUUID (example_runtime env run) = js ''u1''"
  "round_percent (example_runtime env run) = exact_round_percent"
  "r2_upload (example_runtime env run) params = run"
  by (simp_all add: example_runtime_def)

lemma example_request_simps:
  "session_user_id (example_request n t) = Inr (Some (js ''s1''))"
  "formData (example_request n t) =
     Inr \<lparr>form_file = Some (EntryFile \<lparr>file_name = n, file_type = t, file_size = 100\<rparr>),
          form_folder = None\<rparr>"
  by (simp_all add: example_request_def)

lemma example_run_simps:
  "outcome example_run = Resolved"
  "calls (run_callbacks (example_runtime env run') \<lparr>file_name = n, file_type = t, file_size = 100\<rparr>
      (progress_events example_run))
     = [Enqueue (ProgressEvent 10 10 100), Enqueue (ProgressEvent 50 50 100),
        Enqueue (ProgressEvent 99 100 100)]"
  by (simp_all add: run_callbacks_def example_run_def example_runtime_simps
      httpUploadProgress_def progress_loaded_def progress_total_def clamp_percent_def
      exact_round_percent_def Let_def)

lemma example_key: "generateR2Key 17 (js ''u1'') (js ''a.mp4'') None = js ''17-u1-a.mp4''"
  by (simp add: generateR2Key_def sanitizeFilename_def in_class_def decimal.simps js_def ch_def)

lemma example_guess:
  "guessContentType (js ''a.mp4'') (js ''application/octet-stream'') = JString (js ''video/mp4'')"
  by (simp add: guessContentType_def toLowerCase_def toLowerCase_char_def pop_def
      EXT_TO_MIME_get_def EXT_TO_MIME_def js_def ch_def)

text \<open>
  An unknown extension gives the fallback; an extension that names a member of
  \<^verbatim>\<open>Object.prototype\<close> gives that member.
\<close>

lemma guessContentType_unknown:
  "guessContentType (js ''file.unknownext'') (js ''application/octet-stream'')
     = JString (js ''application/octet-stream'')"
  by (simp add: guessContentType_def toLowerCase_def toLowerCase_char_def pop_def
      EXT_TO_MIME_get_def EXT_TO_MIME_def Object_prototype_names_def js_def ch_def)

lemma guessContentType_inherited:
  "guessContentType (js ''a.constructor'') (js ''application/octet-stream'')
     = JInherited (js ''constructor'')"
  by (simp add: guessContentType_def toLowerCase_def toLowerCase_char_def pop_def
      EXT_TO_MIME_get_def EXT_TO_MIME_def Object_prototype_names_def js_def ch_def)

lemma example_bucket: "R2_BUCKET_NAME (example_env u) = js ''b''"
  by (simp add: R2_BUCKET_NAME_def example_env_def)

lemma example_public_url: "R2_PUBLIC_URL (example_env u) = u"
  by (simp add: R2_PUBLIC_URL_def example_env_def js_def ch_def)

lemma example_start:
  "start (example_runtime (example_env []) example_run)
     \<lparr>file_name = js ''a.mp4'', file_type = [], file_size = 100\<rparr>
     (js ''17-u1-a.mp4'') (JString (js ''video/mp4''))
   = ([\<lparr>Bucket = js ''b'', Key = js ''17-u1-a.mp4'',
        ContentType = JString (js ''video/mp4''),
        CacheControl = js ''public, max-age=31536000, immutable'',
        queueSize = 1, partSize = None\<rparr>], example_calls)"
  by (simp add: start_def example_runtime_simps example_run_simps example_calls_def
      joinPublicUrl_def example_bucket example_public_url js_nonempty)

lemma example_POST:
  "response (POST (example_runtime (example_env []) example_run) (example_request (js ''a.mp4'') []))
     = EventStream example_calls"
  by (simp add: POST_def example_request_simps example_runtime_simps resolved_folder_def
      content_type_of_def example_guess js_nonempty example_key example_start)

section \<open>The event stream of an upload\<close>

lemma progress_values_append:
  "progress_values (xs @ ys) = progress_values xs @ progress_values ys"
  by (induction xs rule: progress_values.induct) simp_all

lemma clamp_percent_le: "clamp_percent x \<le> 99"
  by (simp add: clamp_percent_def)

lemma httpUploadProgress_inv:
  assumes "stream_inv s"
  shows "stream_inv (httpUploadProgress rt f p s)"
  using assms clamp_percent_le
  by (auto simp: stream_inv_def httpUploadProgress_def Let_def progress_values_append
      sorted_wrt_append list_all_iff)

lemma run_callbacks_snoc:
  "run_callbacks rt f (ps @ [p]) = httpUploadProgress rt f p (run_callbacks rt f ps)"
  by (simp add: run_callbacks_def)

lemma run_callbacks_inv: "stream_inv (run_callbacks rt f ps)"
proof (induction ps rule: rev_induct)
  case Nil
  show ?case by (simp add: run_callbacks_def stream_inv_def)
next
  case (snoc p ps)
  then show ?case by (simp add: run_callbacks_snoc httpUploadProgress_inv)
qed

text \<open>
  Whatever the store does, \<open>start\<close> sends the progress events of the callbacks, then
  one event that is not a progress event, then closes the stream.
\<close>

lemma start_shape:
  assumes "start rt f key ct = (ups, cs)"
  shows "\<exists>s e. stream_inv s \<and> cs = calls s @ [Enqueue e, Close] \<and> is_terminal e"
proof (cases "R2_BUCKET_NAME (process_env rt) = []")
  case True
  with assms have "cs = calls (run_callbacks rt f [])
      @ [Enqueue (ErrorEvent (error_message (Some (js ''R2_BUCKET_NAME is not set'')))), Close]"
    by (simp add: start_def run_callbacks_def)
  then show ?thesis
    using run_callbacks_inv is_terminal.simps(3) by blast
next
  case False
  define params where "params = \<lparr>Bucket = R2_BUCKET_NAME (process_env rt), Key = key,
      ContentType = ct, CacheControl = js ''public, max-age=31536000, immutable'',
      queueSize = 1,
      partSize = (if file_size f > 5 * 1024 * 1024 then Some (5 * 1024 * 1024) else None)\<rparr>"
  define s where "s = run_callbacks rt f (progress_events (r2_upload rt params))"
  have inv: "stream_inv s"
    unfolding s_def by (rule run_callbacks_inv)
  from assms False have "\<exists>e. cs = calls s @ [Enqueue e, Close] \<and> is_terminal e"
    by (auto simp: start_def Let_def params_def s_def split: upload_outcome.splits)
  with inv show ?thesis by blast
qed

lemma POST_stream_start:
  assumes "response (POST rt req) = EventStream cs"
  shows "\<exists>f key ct ups. start rt f key ct = (ups, cs)"
  using assms
  by (auto simp: POST_def Let_def
      split: sum.splits option.splits if_splits form_entry.splits prod.splits)

lemma POST_stream_shape:
  assumes "response (POST rt req) = EventStream cs"
  shows "\<exists>s e. stream_inv s \<and> cs = calls s @ [Enqueue e, Close] \<and> is_terminal e"
  using POST_stream_start [OF assms] start_shape by blast

lemma progress_calls_map:
  "list_all is_progress_call xs \<Longrightarrow> \<exists>ps. xs = map Enqueue ps \<and> list_all is_progress ps"
proof (induction xs)
  case Nil
  then show ?case by simp
next
  case (Cons c xs)
  then obtain ps where ps: "xs = map Enqueue ps" "list_all is_progress ps"
    by auto
  from Cons.prems obtain e where "c = Enqueue e" "is_progress e"
    by (cases c) auto
  with ps have "c # xs = map Enqueue (e # ps) \<and> list_all is_progress (e # ps)"
    by simp
  then show ?case by (rule exI [of _ "e # ps"])
qed

text \<open>
  C5. In the stream of one upload the percentages of the progress events increase
  strictly from one event to the next and lie between 0 and 99, so 100 is never sent;
  and a callback whose clamped percentage is at most the last percentage sent (0 before
  the first) leaves the stream as it is.
\<close>

theorem progress_strictly_increasing:
  "(response (POST rt req) = EventStream cs \<longrightarrow>
      sorted_wrt (<) (progress_values cs)
      \<and> (\<forall>v \<in> set (progress_values cs). 0 \<le> v \<and> v \<le> 99)
      \<and> 100 \<notin> set (progress_values cs))
   \<and> (progress_total f p \<noteq> 0
       \<and> clamp_percent (round_percent rt (progress_loaded p) (progress_total f p))
            \<le> last (0 # progress_values (calls (run_callbacks rt f ps)))
      \<longrightarrow> run_callbacks rt f (ps @ [p]) = run_callbacks rt f ps)"
proof (intro conjI impI)
  assume r: "response (POST rt req) = EventStream cs"
  from POST_stream_shape [OF r] obtain s e where
    inv: "stream_inv s" and cs: "cs = calls s @ [Enqueue e, Close]" and t: "is_terminal e"
    by blast
  from t have pv: "progress_values cs = progress_values (calls s)"
    by (cases e) (simp_all add: cs progress_values_append)
  from inv show "sorted_wrt (<) (progress_values cs)"
    unfolding pv by (simp add: stream_inv_def)
  from inv show "\<forall>v \<in> set (progress_values cs). 0 \<le> v \<and> v \<le> 99"
    unfolding pv by (fastforce simp: stream_inv_def list_all_iff)
  then show "100 \<notin> set (progress_values cs)"
    by fastforce
next
  assume a: "progress_total f p \<noteq> 0
       \<and> clamp_percent (round_percent rt (progress_loaded p) (progress_total f p))
            \<le> last (0 # progress_values (calls (run_callbacks rt f ps)))"
  have "lastPercent (run_callbacks rt f ps)
      = last (0 # progress_values (calls (run_callbacks rt f ps)))"
    using run_callbacks_inv [of rt f ps] by (simp add: stream_inv_def)
  with a show "run_callbacks rt f (ps @ [p]) = run_callbacks rt f ps"
    by (simp add: run_callbacks_snoc httpUploadProgress_def Let_def)
qed

theorem progress_strictly_increasing_witness:
  "response (POST (example_runtime (example_env []) example_run) (example_request (js ''a.mp4'') []))
     = EventStream example_calls
   \<and> progress_values example_calls = [10, 50, 99]
   \<and> sorted_wrt (<) (progress_values example_calls)
   \<and> 100 \<notin> set (progress_values example_calls)
   \<and> run_callbacks (example_runtime (example_env []) example_run)
        \<lparr>file_name = js ''a.mp4'', file_type = [], file_size = 100\<rparr>
        ([\<lparr>loaded = Some 10, total = Some 100\<rparr>, \<lparr>loaded = Some 50, total = None\<rparr>]
          @ [\<lparr>loaded = Some 40, total = Some 100\<rparr>])
     = run_callbacks (example_runtime (example_env []) example_run)
        \<lparr>file_name = js ''a.mp4'', file_type = [], file_size = 100\<rparr>
        [\<lparr>loaded = Some 10, total = Some 100\<rparr>, \<lparr>loaded = Some 50, total = None\<rparr>]"
proof -
  let ?rt = "example_runtime (example_env []) example_run"
  let ?f = "\<lparr>file_name = js ''a.mp4'', file_type = [], file_size = 100\<rparr>"
  let ?ps = "[\<lparr>loaded = Some 10, total = Some 100\<rparr>, \<lparr>loaded = Some 50, total = None\<rparr>]"
  let ?p = "\<lparr>loaded = Some 40, total = Some 100\<rparr>"
  note t = progress_strictly_increasing [of ?rt "example_request (js ''a.mp4'') []"
      example_calls ?f ?p ?ps]
  have v: "progress_values example_calls = [10, 50, 99]"
    by (simp add: example_calls_def)
  have c: "calls (run_callbacks ?rt ?f ?ps)
      = [Enqueue (ProgressEvent 10 10 100), Enqueue (ProgressEvent 50 50 100)]"
    by (simp add: run_callbacks_def example_runtime_simps httpUploadProgress_def
        progress_loaded_def progress_total_def clamp_percent_def exact_round_percent_def Let_def)
  have h: "progress_total ?f ?p \<noteq> 0
       \<and> clamp_percent (round_percent ?rt (progress_loaded ?p) (progress_total ?f ?p))
            \<le> last (0 # progress_values (calls (run_callbacks ?rt ?f ?ps)))"
    by (simp add: c example_runtime_simps progress_loaded_def progress_total_def
        clamp_percent_def exact_round_percent_def)
  from t example_POST h v show ?thesis
    by simp
qed

text \<open>
  C6. The calls on the controller of an upload stream are: progress events, then exactly
  one terminal event (the success event or an error event), then the close. So the
  terminal event is the last event, the stream is closed right after it, and nothing is
  sent after it.
\<close>

theorem stream_one_terminal_event_last:
  assumes "response (POST rt req) = EventStream cs"
  shows "\<exists>ps e. cs = map Enqueue ps @ [Enqueue e, Close]
           \<and> list_all is_progress ps
           \<and> ((\<exists>d. e = DoneEvent d) \<or> (\<exists>m. e = ErrorEvent m))"
proof -
  from POST_stream_shape [OF assms] obtain s e where
    inv: "stream_inv s" and cs: "cs = calls s @ [Enqueue e, Close]" and t: "is_terminal e"
    by blast
  from inv obtain ps where ps: "calls s = map Enqueue ps" "list_all is_progress ps"
    unfolding stream_inv_def using progress_calls_map by blast
  from t have "(\<exists>d. e = DoneEvent d) \<or> (\<exists>m. e = ErrorEvent m)"
    by (cases e) simp_all
  with cs ps show ?thesis by blast
qed

theorem stream_one_terminal_event_last_witness:
  "response (POST (example_runtime (example_env []) example_run) (example_request (js ''a.mp4'') []))
     = EventStream example_calls
   \<and> (\<exists>ps e. example_calls = map Enqueue ps @ [Enqueue e, Close]
           \<and> list_all is_progress ps
           \<and> ((\<exists>d. e = DoneEvent d) \<or> (\<exists>m. e = ErrorEvent m)))"
  using stream_one_terminal_event_last [OF example_POST] example_POST by simp

section \<open>Configuration and content type\<close>

lemma POST_with_file:
  assumes "session_user_id req = Inr (Some uid)" and "uid \<noteq> []"
    and "formData req = Inr form" and "form_file form = Some (EntryFile f)"
  shows "POST rt req =
     \<lparr>response = EventStream (snd (start rt f
          (generateR2Key (Date_now rt) (randomUUID rt) (file_name f)
             (resolved_folder (form_folder form)))
          (content_type_of f))),
      uploads = fst (start rt f
          (generateR2Key (Date_now rt) (randomUUID rt) (file_name f)
             (resolved_folder (form_folder form)))
          (content_type_of f))\<rparr>"
  using assms by (simp add: POST_def Let_def split: prod.splits)

lemma start_resolved:
  assumes "R2_BUCKET_NAME (process_env rt) \<noteq> []"
  shows "\<exists>u. fst (start rt f key ct) = [u] \<and> ContentType u = ct \<and> Key u = key
           \<and> Bucket u = R2_BUCKET_NAME (process_env rt)
           \<and> (outcome (r2_upload rt u) = Resolved \<longrightarrow>
                snd (start rt f key ct) =
                  calls (run_callbacks rt f (progress_events (r2_upload rt u)))
                    @ [Enqueue (DoneEvent
                         \<lparr>done_key = key,
                          done_url = joinPublicUrl (R2_PUBLIC_URL (process_env rt)) key,
                          done_name = file_name f, done_contentType = ct,
                          done_size = file_size f\<rparr>), Close])"
  using assms by (auto simp: start_def Let_def split: upload_outcome.splits)

text \<open>
  C7. A missing bucket name makes the stream fail on first use: no upload is started and
  the only event is the error \<^verbatim>\<open>R2_BUCKET_NAME is not set\<close>. A missing public base
  URL does not: loading the configuration only writes a console warning, and an upload
  that the store accepts ends with a success event whose \<open>url\<close> is the bare key.
\<close>

theorem missing_configuration:
  assumes "session_user_id req = Inr (Some uid)" and "uid \<noteq> []"
    and "formData req = Inr form" and "form_file form = Some (EntryFile f)"
  shows "(R2_BUCKET_NAME (process_env rt) = [] \<longrightarrow>
            POST rt req =
              \<lparr>response = EventStream
                  [Enqueue (ErrorEvent (js ''R2_BUCKET_NAME is not set'')), Close],
               uploads = []\<rparr>)
       \<and> (R2_BUCKET_NAME (process_env rt) \<noteq> [] \<and> R2_PUBLIC_URL (process_env rt) = []
            \<and> (\<forall>u. outcome (r2_upload rt u) = Resolved) \<longrightarrow>
            js ''[R2] R2_PUBLIC_URL is not set in environment variables''
              \<in> set (config_warnings (process_env rt))
            \<and> (\<exists>cs d. response (POST rt req) = EventStream (cs @ [Enqueue (DoneEvent d), Close])
                  \<and> done_url d = done_key d))"
proof (intro conjI impI)
  assume "R2_BUCKET_NAME (process_env rt) = []"
  then show "POST rt req =
      \<lparr>response = EventStream [Enqueue (ErrorEvent (js ''R2_BUCKET_NAME is not set'')), Close],
       uploads = []\<rparr>"
    by (simp add: POST_with_file [OF assms] start_def error_message_def js_nonempty)
next
  assume a: "R2_BUCKET_NAME (process_env rt) \<noteq> [] \<and> R2_PUBLIC_URL (process_env rt) = []
            \<and> (\<forall>u. outcome (r2_upload rt u) = Resolved)"
  then show "js ''[R2] R2_PUBLIC_URL is not set in environment variables''
      \<in> set (config_warnings (process_env rt))"
    by (auto simp: config_warnings_def warnIfMissing_def R2_PUBLIC_URL_def js_def
        split: option.splits)
next
  assume a: "R2_BUCKET_NAME (process_env rt) \<noteq> [] \<and> R2_PUBLIC_URL (process_env rt) = []
            \<and> (\<forall>u. outcome (r2_upload rt u) = Resolved)"
  let ?key = "generateR2Key (Date_now rt) (randomUUID rt) (file_name f)
      (resolved_folder (form_folder form))"
  from a start_resolved [of rt f ?key "content_type_of f"]
  obtain cs d where "snd (start rt f ?key (content_type_of f)) = cs @ [Enqueue (DoneEvent d), Close]"
    and "done_url d = joinPublicUrl [] ?key" and "done_key d = ?key"
    by fastforce
  then show "\<exists>cs d. response (POST rt req) = EventStream (cs @ [Enqueue (DoneEvent d), Close])
      \<and> done_url d = done_key d"
    by (auto simp: POST_with_file [OF assms] joinPublicUrl_def)
qed

theorem missing_configuration_witness:
  "response (POST (example_runtime (example_env []) example_run) (example_request (js ''a.mp4'') []))
     = EventStream
         [Enqueue (ProgressEvent 10 10 100), Enqueue (ProgressEvent 50 50 100),
          Enqueue (ProgressEvent 99 100 100),
          Enqueue (DoneEvent \<lparr>done_key = js ''17-u1-a.mp4'', done_url = js ''17-u1-a.mp4'',
             done_name = js ''a.mp4'', done_contentType = JString (js ''video/mp4''),
             done_size = 100\<rparr>),
          Close]
   \<and> js ''[R2] R2_PUBLIC_URL is not set in environment variables''
        \<in> set (config_warnings (example_env []))"
proof -
  let ?rt = "example_runtime (example_env []) example_run"
  let ?req = "example_request (js ''a.mp4'') []"
  have "js ''[R2] R2_PUBLIC_URL is not set in environment variables''
      \<in> set (config_warnings (process_env ?rt))"
    using missing_configuration [of ?req "js ''s1''" _ _ ?rt, OF example_request_simps(1) js_nonempty
        example_request_simps(2)]
    by (simp add: example_runtime_simps example_bucket example_public_url example_run_simps
        js_nonempty)
  then show ?thesis
    using example_POST by (simp add: example_calls_def example_runtime_simps)
qed

text \<open>
  C10. For a request that carries a file, the content type given to the store and the
  one of the success event are the browser's \<open>file.type\<close> whenever it is neither
  empty nor \<^verbatim>\<open>application/octet-stream\<close>; only otherwise are they what
  \<open>guessContentType\<close> reads from the file name.
\<close>

theorem content_type_precedence:
  assumes "session_user_id req = Inr (Some uid)" and "uid \<noteq> []"
    and "formData req = Inr form" and "form_file form = Some (EntryFile f)"
    and "R2_BUCKET_NAME (process_env rt) \<noteq> []"
  shows "\<exists>u. uploads (POST rt req) = [u]
           \<and> ContentType u =
               (if file_type f \<noteq> [] \<and> file_type f \<noteq> js ''application/octet-stream''
                then JString (file_type f)
                else guessContentType (file_name f) (js ''application/octet-stream''))
           \<and> (outcome (r2_upload rt u) = Resolved \<longrightarrow>
                (\<exists>cs d. response (POST rt req) = EventStream (cs @ [Enqueue (DoneEvent d), Close])
                   \<and> done_contentType d = ContentType u))"
proof -
  let ?key = "generateR2Key (Date_now rt) (randomUUID rt) (file_name f)
      (resolved_folder (form_folder form))"
  from start_resolved [OF assms(5), of f ?key "content_type_of f"]
  obtain u where u: "fst (start rt f ?key (content_type_of f)) = [u]"
      "ContentType u = content_type_of f"
      "outcome (r2_upload rt u) = Resolved \<longrightarrow>
         snd (start rt f ?key (content_type_of f)) =
           calls (run_callbacks rt f (progress_events (r2_upload rt u)))
             @ [Enqueue (DoneEvent
                  \<lparr>done_key = ?key,
                   done_url = joinPublicUrl (R2_PUBLIC_URL (process_env rt)) ?key,
                   done_name = file_name f, done_contentType = content_type_of f,
                   done_size = file_size f\<rparr>), Close]"
    by blast
  have "outcome (r2_upload rt u) = Resolved \<longrightarrow>
      (\<exists>cs d. response (POST rt req) = EventStream (cs @ [Enqueue (DoneEvent d), Close])
         \<and> done_contentType d = ContentType u)"
  proof
    assume "outcome (r2_upload rt u) = Resolved"
    with u(3) have "response (POST rt req) =
        EventStream (calls (run_callbacks rt f (progress_events (r2_upload rt u)))
             @ [Enqueue (DoneEvent
                  \<lparr>done_key = ?key,
                   done_url = joinPublicUrl (R2_PUBLIC_URL (process_env rt)) ?key,
                   done_name = file_name f, done_contentType = content_type_of f,
                   done_size = file_size f\<rparr>), Close])"
      by (simp add: POST_with_file [OF assms(1-4)])
    with u(2) show "\<exists>cs d. response (POST rt req) = EventStream (cs @ [Enqueue (DoneEvent d), Close])
         \<and> done_contentType d = ContentType u"
      by (metis done_payload.select_convs(4))
  qed
  with u(1,2) show ?thesis
    by (simp add: POST_with_file [OF assms(1-4)] content_type_of_def)
qed

theorem content_type_precedence_witness:
  "\<exists>u. uploads (POST (example_runtime (example_env []) example_run)
               (example_request (js ''a.mp4'') (js ''text/plain''))) = [u]
      \<and> ContentType u = JString (js ''text/plain'')
      \<and> guessContentType (js ''a.mp4'') (js ''application/octet-stream'')
          = JString (js ''video/mp4'')
      \<and> (\<exists>cs d. response (POST (example_runtime (example_env []) example_run)
                     (example_request (js ''a.mp4'') (js ''text/plain'')))
                  = EventStream (cs @ [Enqueue (DoneEvent d), Close])
             \<and> done_contentType d = JString (js ''text/plain''))"
proof -
  let ?rt = "example_runtime (example_env []) example_run"
  let ?req = "example_request (js ''a.mp4'') (js ''text/plain'')"
  have b: "R2_BUCKET_NAME (process_env ?rt) \<noteq> []"
    by (simp add: example_runtime_simps example_bucket js_nonempty)
  have n: "js ''text/plain'' \<noteq> [] \<and> js ''text/plain'' \<noteq> js ''application/octet-stream''"
    by (simp add: js_def ch_def)
  from content_type_precedence [of ?req "js ''s1''" _ _ ?rt, OF example_request_simps(1)
      js_nonempty example_request_simps(2) _ b]
  have "\<exists>u. uploads (POST ?rt ?req) = [u] \<and> ContentType u = JString (js ''text/plain'')
      \<and> (\<exists>cs d. response (POST ?rt ?req) = EventStream (cs @ [Enqueue (DoneEvent d), Close])
             \<and> done_contentType d = ContentType u)"
    by (simp add: n example_runtime_simps example_run_simps)
  then show ?thesis
    by (auto simp: example_guess)
qed

section \<open>The content gate\<close>

lemma percentage_better: "percentage (better a b) = max (percentage a) (percentage b)"
  by (simp add: better_def max_def)

lemma percentage_foldl_better:
  "percentage (foldl better r rs) = Max (percentage ` set (r # rs))"
proof (induction rs arbitrary: r)
  case Nil
  show ?case by simp
next
  case (Cons x xs)
  have "percentage (foldl better r (x # xs)) = Max (percentage ` set (better r x # xs))"
    using Cons.IH [of "better r x"] by simp
  also have "\<dots> = Max (percentage ` set (r # x # xs))"
  proof (cases "xs = []")
    case True
    then show ?thesis by (simp add: percentage_better max.commute)
  next
    case False
    then show ?thesis
      by (simp add: percentage_better max.assoc)
  qed
  finally show ?case .
qed

lemma spec_sequential_lock_0: "\<not> spec_sequential_lock items 0"
  by (simp add: spec_sequential_lock_def)

lemma spec_sequential_lock_Suc:
  "spec_sequential_lock items (Suc i) =
     (if is_quiz (items ! i)
      then quiz_results (items ! i) = [] \<or> Max (percentage ` set (quiz_results (items ! i))) < 50
      else spec_sequential_lock items i)"
proof (cases "is_quiz (items ! i)")
  case True
  have "spec_sequential_lock items (Suc i) \<longleftrightarrow>
      (quiz_results (items ! i) = [] \<or> Max (percentage ` set (quiz_results (items ! i))) < 50)"
    unfolding spec_sequential_lock_def
  proof
    assume "\<exists>j<Suc i. is_quiz (items ! j) \<and> (\<forall>k. j < k \<and> k < Suc i \<longrightarrow> \<not> is_quiz (items ! k)) \<and>
      (quiz_results (items ! j) = [] \<or> Max (percentage ` set (quiz_results (items ! j))) < 50)"
    then obtain j where j: "j < Suc i" "\<forall>k. j < k \<and> k < Suc i \<longrightarrow> \<not> is_quiz (items ! k)"
      "quiz_results (items ! j) = [] \<or> Max (percentage ` set (quiz_results (items ! j))) < 50"
      by blast
    from j(1,2) True have "j = i"
      by (metis less_Suc_eq lessI)
    with j(3) show "quiz_results (items ! i) = [] \<or> Max (percentage ` set (quiz_results (items ! i))) < 50"
      by simp
  next
    assume "quiz_results (items ! i) = [] \<or> Max (percentage ` set (quiz_results (items ! i))) < 50"
    with True show "\<exists>j<Suc i. is_quiz (items ! j) \<and> (\<forall>k. j < k \<and> k < Suc i \<longrightarrow> \<not> is_quiz (items ! k)) \<and>
      (quiz_results (items ! j) = [] \<or> Max (percentage ` set (quiz_results (items ! j))) < 50)"
      by (intro exI [of _ i]) auto
  qed
  with True show ?thesis by simp
next
  case False
  have "spec_sequential_lock items (Suc i) \<longleftrightarrow> spec_sequential_lock items i"
    unfolding spec_sequential_lock_def
  proof
    assume "\<exists>j<Suc i. is_quiz (items ! j) \<and> (\<forall>k. j < k \<and> k < Suc i \<longrightarrow> \<not> is_quiz (items ! k)) \<and>
      (quiz_results (items ! j) = [] \<or> Max (percentage ` set (quiz_results (items ! j))) < 50)"
    then obtain j where j: "j < Suc i" "is_quiz (items ! j)"
      "\<forall>k. j < k \<and> k < Suc i \<longrightarrow> \<not> is_quiz (items ! k)"
      "quiz_results (items ! j) = [] \<or> Max (percentage ` set (quiz_results (items ! j))) < 50"
      by blast
    from j(1,2) False have "j < i"
      by (metis less_Suc_eq)
    with j show "\<exists>j<i. is_quiz (items ! j) \<and> (\<forall>k. j < k \<and> k < i \<longrightarrow> \<not> is_quiz (items ! k)) \<and>
      (quiz_results (items ! j) = [] \<or> Max (percentage ` set (quiz_results (items ! j))) < 50)"
      by (intro exI [of _ j]) auto
  next
    assume "\<exists>j<i. is_quiz (items ! j) \<and> (\<forall>k. j < k \<and> k < i \<longrightarrow> \<not> is_quiz (items ! k)) \<and>
      (quiz_results (items ! j) = [] \<or> Max (percentage ` set (quiz_results (items ! j))) < 50)"
    then obtain j where j: "j < i" "is_quiz (items ! j)"
      "\<forall>k. j < k \<and> k < i \<longrightarrow> \<not> is_quiz (items ! k)"
      "quiz_results (items ! j) = [] \<or> Max (percentage ` set (quiz_results (items ! j))) < 50"
      by blast
    from j(3) False have "\<forall>k. j < k \<and> k < Suc i \<longrightarrow> \<not> is_quiz (items ! k)"
      by (metis less_Suc_eq)
    with j show "\<exists>j<Suc i. is_quiz (items ! j) \<and> (\<forall>k. j < k \<and> k < Suc i \<longrightarrow> \<not> is_quiz (items ! k)) \<and>
      (quiz_results (items ! j) = [] \<or> Max (percentage ` set (quiz_results (items ! j))) < 50)"
      by (intro exI [of _ j]) auto
  qed
  with False show ?thesis by simp
qed

lemma previous_quiz_check_locked:
  "\<not> isLocked st \<Longrightarrow> isLocked (previous_quiz_check items i st) = spec_sequential_lock items i"
proof (induction i)
  case 0
  then show ?case by (simp add: spec_sequential_lock_0)
next
  case (Suc i)
  show ?case
  proof (cases "items ! i")
    case (ChapterContent c rq)
    with Suc show ?thesis
      by (simp add: spec_sequential_lock_Suc)
  next
    case (QuizContent q rs)
    show ?thesis
    proof (cases "quiz_results (items ! i)")
      case Nil
      with QuizContent Suc.prems show ?thesis
        by (simp add: spec_sequential_lock_Suc)
    next
      case (Cons r rest)
      with QuizContent Suc.prems show ?thesis
        using percentage_foldl_better [of r rest]
        by (simp add: spec_sequential_lock_Suc Let_def)
    qed
  qed
qed

lemma GET_content_length:
  "length (GET_content db userId courseId)
     = length (allContentUnsorted db userId courseId (content_hasAccess db userId courseId))"
  by (simp add: GET_content_def Let_def)

lemma GET_content_nth:
  assumes "i < length (allContentUnsorted db userId courseId (content_hasAccess db userId courseId))"
  shows "GET_content db userId courseId ! i =
     (allContentUnsorted db userId courseId (content_hasAccess db userId courseId) ! i,
      lock_content (content_hasAccess db userId courseId) userId
        (allContentUnsorted db userId courseId (content_hasAccess db userId courseId)) i
        (allContentUnsorted db userId courseId (content_hasAccess db userId courseId) ! i))"
  using assms by (simp add: GET_content_def Let_def nth_enumerate_eq)

lemma content_hasAccess_truthy: "content_hasAccess db userId courseId \<Longrightarrow> truthy userId"
  by (auto simp: content_hasAccess_def truthy_def split: option.splits if_splits)

lemma js_eq_simps:
  "js ''c1'' \<noteq> []" "js ''s1'' \<noteq> []" "js ''q1'' \<noteq> []" "js ''q0'' \<noteq> js ''q1''"
  "js ''q1'' \<noteq> js ''q0''"
  by (simp_all add: js_def ch_def)

lemma active_purchases_nonempty:
  "active_purchases db courseId u \<noteq> [] \<longleftrightarrow>
     (\<exists>p \<in> set (purchases db). purchase_userId p = u \<and> purchase_courseId p = courseId
        \<and> purchase_status p = js ''ACTIVE'')"
  by (auto simp: active_purchases_def course_purchases_def filter_empty_conv)

lemma published_course_id: "published_course db courseId = Some c \<Longrightarrow> course_id c = courseId"
  by (auto simp: published_course_def find_Some_iff)

text \<open>
  C8. For every course and user, the access predicate of the content routes, evaluated on
  the course and the user's purchases of it with status ACTIVE, is true exactly when the
  price is 0 or such a purchase exists. For an authenticated user and a published course
  it is the access flag of the content route; the first-content route evaluates the same
  predicate on the same query.
\<close>

theorem course_access_iff:
  "(course_access c (active_purchases db (course_id c) u) \<longleftrightarrow>
      price c = Some 0
      \<or> (\<exists>p \<in> set (purchases db). purchase_userId p = u \<and> purchase_courseId p = course_id c
            \<and> purchase_status p = js ''ACTIVE''))
   \<and> (u \<noteq> [] \<and> published_course db courseId = Some c \<longrightarrow>
        content_hasAccess db (Some u) courseId
          = course_access c (active_purchases db (course_id c) u))"
proof (intro conjI impI)
  show "course_access c (active_purchases db (course_id c) u) \<longleftrightarrow>
      price c = Some 0
      \<or> (\<exists>p \<in> set (purchases db). purchase_userId p = u \<and> purchase_courseId p = course_id c
            \<and> purchase_status p = js ''ACTIVE'')"
    by (simp add: course_access_def active_purchases_nonempty [symmetric])
next
  assume a: "u \<noteq> [] \<and> published_course db courseId = Some c"
  then have "course_id c = courseId"
    using published_course_id [of db courseId c] by blast
  with a show "content_hasAccess db (Some u) courseId
      = course_access c (active_purchases db (course_id c) u)"
    by (simp add: content_hasAccess_def)
qed

lemma plain_course:
  "published_course (plain_db p) (js ''c1'')
     = Some \<lparr>course_id = js ''c1'', course_isPublished = True, price = Some p\<rparr>"
  by (simp add: plain_db_def mk_db_def published_course_def)

lemma plain_purchases: "purchases (plain_db p) = []"
  by (simp add: plain_db_def mk_db_def)

theorem course_access_iff_witness:
  "content_hasAccess (plain_db 0) (Some (js ''s1'')) (js ''c1'')
   \<and> \<not> content_hasAccess (plain_db 100) (Some (js ''s1'')) (js ''c1'')
   \<and> course_access \<lparr>course_id = js ''c1'', course_isPublished = True, price = Some 100\<rparr>
        [\<lparr>purchase_userId = js ''s1'', purchase_courseId = js ''c1'',
          purchase_status = js ''ACTIVE''\<rparr>]"
proof -
  let ?c = "\<lambda>p. \<lparr>course_id = js ''c1'', course_isPublished = True, price = Some p\<rparr>"
  let ?bought = "mk_db (Some 100)
      [\<lparr>purchase_userId = js ''s1'', purchase_courseId = js ''c1'',
        purchase_status = js ''ACTIVE''\<rparr>] [] [] []"
  have b: "active_purchases ?bought (js ''c1'') (js ''s1'')
      = [\<lparr>purchase_userId = js ''s1'', purchase_courseId = js ''c1'',
          purchase_status = js ''ACTIVE''\<rparr>]"
    by (simp add: active_purchases_def course_purchases_def mk_db_def)
  have "content_hasAccess (plain_db 0) (Some (js ''s1'')) (js ''c1'')"
    using course_access_iff [of "?c 0" "plain_db 0" "js ''s1''" "js ''c1''"]
    by (simp add: plain_course plain_purchases js_eq_simps)
  moreover have "\<not> content_hasAccess (plain_db 100) (Some (js ''s1'')) (js ''c1'')"
    using course_access_iff [of "?c 100" "plain_db 100" "js ''s1''" "js ''c1''"]
    by (simp add: plain_course plain_purchases js_eq_simps)
  moreover have "course_access (?c 100) (active_purchases ?bought (js ''c1'') (js ''s1''))"
    using course_access_iff [of "?c 100" ?bought "js ''s1''" "js ''c1''"]
    by (simp add: mk_db_def)
  ultimately show ?thesis
    by (simp add: b)
qed

lemma list_ex_active:
  "list_ex (\<lambda>p. purchase_status p = js ''ACTIVE'') (course_purchases db courseId u)
     \<longleftrightarrow> active_purchases db courseId u \<noteq> []"
  by (auto simp: active_purchases_def list_ex_iff filter_empty_conv)

text \<open>
  C2 (as amended). For an authenticated user and a published course the access route
  answers with \<open>hasAccess\<close> and \<open>hasPurchase\<close> both equal to whether the user has a
  purchase of the course with status ACTIVE. The price is not read: for a free course
  without a purchase both are false.
\<close>

theorem GET_access_signals:
  assumes "u \<noteq> []" and "published_course db courseId = Some c"
  shows "GET_access db (Some u) courseId =
     Json \<lparr>hasAccess = (\<exists>p \<in> set (purchases db). purchase_userId p = u
                \<and> purchase_courseId p = courseId \<and> purchase_status p = js ''ACTIVE''),
           hasPurchase = (\<exists>p \<in> set (purchases db). purchase_userId p = u
                \<and> purchase_courseId p = courseId \<and> purchase_status p = js ''ACTIVE'')\<rparr>"
  using assms
  by (simp add: GET_access_def list_ex_active Let_def active_purchases_nonempty)

theorem GET_access_signals_witness:
  "GET_access (plain_db 0) (Some (js ''s1'')) (js ''c1'')
     = Json \<lparr>hasAccess = False, hasPurchase = False\<rparr>"
  using GET_access_signals [OF js_eq_simps(2) plain_course, of 0]
  by (simp add: plain_purchases)

theorem GET_access_free_course_counterexample:
  "GET_access (plain_db 0) (Some (js ''s1'')) (js ''c1'')
     \<noteq> Json (spec_access_body (plain_db 0) (js ''s1'')
               \<lparr>course_id = js ''c1'', course_isPublished = True, price = Some 0\<rparr>)"
  by (simp add: GET_access_def plain_course js_eq_simps spec_access_body_def
      course_purchases_def plain_purchases)

lemma lock_content_no_access:
  "lock_content False userId items i item =
     (case item of
        ChapterContent c rq \<Rightarrow>
          if requirePassingQuiz c \<and> truthy (requiredQuizId c)
          then \<lparr>isLocked = True, lockReason = Some MustPurchaseCourse\<rparr>
          else \<lparr>isLocked = False, lockReason = None\<rparr>
      | QuizContent q rs \<Rightarrow> \<lparr>isLocked = False, lockReason = None\<rparr>)"
  by (simp add: lock_content_def required_quiz_check_def split: content.splits)

text \<open>
  C4 (as amended). The response of the content route has every item of the catalog, in
  order, each with \<open>isLocked\<close> and \<open>lockReason\<close>. When the caller lacks course
  access, a chapter that requires passing a quiz is locked with the reason that the course
  must be bought first; every other chapter, free or not, and every quiz is not locked and
  has no reason.
\<close>

theorem content_lock_without_access:
  "map fst (GET_content db userId courseId)
     = allContentUnsorted db userId courseId (content_hasAccess db userId courseId)
   \<and> (\<not> content_hasAccess db userId courseId \<longrightarrow>
        map snd (GET_content db userId courseId)
          = map (\<lambda>item. case item of
                   ChapterContent c rq \<Rightarrow>
                     if requirePassingQuiz c \<and> truthy (requiredQuizId c)
                     then \<lparr>isLocked = True, lockReason = Some MustPurchaseCourse\<rparr>
                     else \<lparr>isLocked = False, lockReason = None\<rparr>
                 | QuizContent q rs \<Rightarrow> \<lparr>isLocked = False, lockReason = None\<rparr>)
              (allContentUnsorted db userId courseId False))"
proof (intro conjI impI)
  show "map fst (GET_content db userId courseId)
     = allContentUnsorted db userId courseId (content_hasAccess db userId courseId)"
    by (rule nth_equalityI) (simp_all add: GET_content_length GET_content_nth)
next
  assume a: "\<not> content_hasAccess db userId courseId"
  show "map snd (GET_content db userId courseId)
          = map (\<lambda>item. case item of
                   ChapterContent c rq \<Rightarrow>
                     if requirePassingQuiz c \<and> truthy (requiredQuizId c)
                     then \<lparr>isLocked = True, lockReason = Some MustPurchaseCourse\<rparr>
                     else \<lparr>isLocked = False, lockReason = None\<rparr>
                 | QuizContent q rs \<Rightarrow> \<lparr>isLocked = False, lockReason = None\<rparr>)
              (allContentUnsorted db userId courseId False)"
    using a by (intro nth_equalityI) (simp_all add: GET_content_length GET_content_nth lock_content_no_access)
qed


lemma plain_access: "content_hasAccess (plain_db p) (Some (js ''s1'')) (js ''c1'') = (p = 0)"
  by (simp add: content_hasAccess_def plain_course course_access_def active_purchases_def
      course_purchases_def plain_purchases js_eq_simps)

lemma plain_items:
  "allContentUnsorted (plain_db p) (Some (js ''s1'')) (js ''c1'') False
     = [ChapterContent (mk_chapter ''a'' 1 False False None) None]"
  by (simp add: allContentUnsorted_def plain_db_def mk_db_def published_chapters_def
      published_quizzes_def mk_chapter_def)

theorem paid_chapter_unlocked_counterexample:
  "\<not> content_hasAccess (plain_db 100) (Some (js ''s1'')) (js ''c1'')
   \<and> \<not> isFree (mk_chapter ''a'' 1 False False None)
   \<and> GET_content (plain_db 100) (Some (js ''s1'')) (js ''c1'')
       = [(ChapterContent (mk_chapter ''a'' 1 False False None) None,
           \<lparr>isLocked = False, lockReason = None\<rparr>)]"
proof -
  have "GET_content (plain_db 100) (Some (js ''s1'')) (js ''c1'')
       = [(ChapterContent (mk_chapter ''a'' 1 False False None) None,
           lock_content False (Some (js ''s1''))
             [ChapterContent (mk_chapter ''a'' 1 False False None) None] 0
             (ChapterContent (mk_chapter ''a'' 1 False False None) None))]"
    by (simp add: GET_content_def plain_access plain_items)
  then show ?thesis
    by (simp add: plain_access lock_content_no_access) (simp add: mk_chapter_def)
qed

lemma paid_access: "\<not> content_hasAccess paid_db (Some (js ''s1'')) (js ''c1'')"
  by (simp add: content_hasAccess_def paid_db_def mk_db_def published_course_def
      course_access_def active_purchases_def course_purchases_def js_eq_simps)

lemma paid_items:
  "allContentUnsorted paid_db (Some (js ''s1'')) (js ''c1'') False
     = [ChapterContent (mk_chapter ''a'' 1 False True (Some ''q1'')) None,
        QuizContent (mk_quiz ''q1'' 2) None,
        ChapterContent (mk_chapter ''b'' 3 False False None) None]"
  by (simp add: allContentUnsorted_def paid_db_def mk_db_def published_chapters_def
      published_quizzes_def mk_chapter_def mk_quiz_def)

theorem content_lock_without_access_witness:
  "\<not> content_hasAccess paid_db (Some (js ''s1'')) (js ''c1'')
   \<and> map snd (GET_content paid_db (Some (js ''s1'')) (js ''c1''))
       = [\<lparr>isLocked = True, lockReason = Some MustPurchaseCourse\<rparr>,
          \<lparr>isLocked = False, lockReason = None\<rparr>,
          \<lparr>isLocked = False, lockReason = None\<rparr>]"
proof -
  have t: "truthy (requiredQuizId (mk_chapter ''a'' 1 False True (Some ''q1'')))"
      "requirePassingQuiz (mk_chapter ''a'' 1 False True (Some ''q1''))"
      "\<not> requirePassingQuiz (mk_chapter ''b'' 3 False False None)"
    by (simp_all add: mk_chapter_def truthy_def js_eq_simps)
  from content_lock_without_access [of paid_db "Some (js ''s1'')" "js ''c1''"] paid_access
  show ?thesis
    by (simp add: paid_items t)
qed

lemma lock_content_access:
  assumes "truthy userId"
  shows "isLocked (lock_content True userId items i item) =
     (case item of
        QuizContent q rs \<Rightarrow> spec_sequential_lock items i
      | ChapterContent c rq \<Rightarrow>
          isLocked (required_quiz_check True userId c rq \<lparr>isLocked = False, lockReason = None\<rparr>)
          \<or> spec_sequential_lock items i)"
  using assms
  by (auto simp: lock_content_def Let_def previous_quiz_check_locked split: content.splits)

text \<open>
  C3. For a learner with course access and every index of the merged catalog, the
  backward loop locks exactly when there is a nearest preceding quiz and the learner has no
  result for it or the best percentage of their results for it is below 50; no quiz before
  the nearest one is read. In the response a quiz is locked exactly then, and a chapter
  exactly when its required-quiz rule or this sequential rule locks it.
\<close>

theorem sequential_lock_nearest_quiz:
  assumes "content_hasAccess db userId courseId"
    and "i < length (allContentUnsorted db userId courseId True)"
  shows "isLocked (previous_quiz_check (allContentUnsorted db userId courseId True) i
            \<lparr>isLocked = False, lockReason = None\<rparr>)
           = spec_sequential_lock (allContentUnsorted db userId courseId True) i
       \<and> fst (GET_content db userId courseId ! i) = allContentUnsorted db userId courseId True ! i
       \<and> isLocked (snd (GET_content db userId courseId ! i)) =
           (case allContentUnsorted db userId courseId True ! i of
              QuizContent q rs \<Rightarrow> spec_sequential_lock (allContentUnsorted db userId courseId True) i
            | ChapterContent c rq \<Rightarrow>
                isLocked (required_quiz_check True userId c rq
                            \<lparr>isLocked = False, lockReason = None\<rparr>)
                \<or> spec_sequential_lock (allContentUnsorted db userId courseId True) i)"
  using assms content_hasAccess_truthy [OF assms(1)]
  by (simp add: previous_quiz_check_locked GET_content_nth lock_content_access)

lemma sequence_access: "content_hasAccess sequence_db (Some (js ''s1'')) (js ''c1'')"
  by (simp add: content_hasAccess_def sequence_db_def mk_db_def published_course_def
      course_access_def active_purchases_def course_purchases_def js_eq_simps)

lemma sequence_items:
  "allContentUnsorted sequence_db (Some (js ''s1'')) (js ''c1'') True
     = [QuizContent (mk_quiz ''q0'' 0) (Some [mk_result ''q0'' 30 1]),
        ChapterContent (mk_chapter ''a'' 1 False False None) None,
        QuizContent (mk_quiz ''q1'' 2) (Some [mk_result ''q1'' 40 2, mk_result ''q1'' 60 3]),
        ChapterContent (mk_chapter ''b'' 3 False False None) None]"
  by (simp add: allContentUnsorted_def sequence_db_def mk_db_def published_chapters_def
      published_quizzes_def mk_chapter_def mk_quiz_def mk_result_def required_quiz_results_def
      student_results_def js_eq_simps)



lemma sequence_locks:
  "map (\<lambda>x. isLocked (snd x)) (GET_content sequence_db (Some (js ''s1'')) (js ''c1''))
     = [False, True, True, False]"
  by (simp add: GET_content_def sequence_access sequence_items lock_content_def truthy_def
      js_eq_simps required_quiz_check_def Let_def)
     (simp add: mk_chapter_def mk_result_def better_def)


theorem sequential_lock_nearest_quiz_witness:
  "map (\<lambda>x. isLocked (snd x)) (GET_content sequence_db (Some (js ''s1'')) (js ''c1''))
     = [False, True, True, False]
   \<and> \<not> spec_sequential_lock (allContentUnsorted sequence_db (Some (js ''s1'')) (js ''c1'') True) 0
   \<and> spec_sequential_lock (allContentUnsorted sequence_db (Some (js ''s1'')) (js ''c1'') True) 1
   \<and> spec_sequential_lock (allContentUnsorted sequence_db (Some (js ''s1'')) (js ''c1'') True) 2
   \<and> \<not> spec_sequential_lock (allContentUnsorted sequence_db (Some (js ''s1'')) (js ''c1'') True) 3"
proof -
  let ?items = "allContentUnsorted sequence_db (Some (js ''s1'')) (js ''c1'') True"
  let ?out = "GET_content sequence_db (Some (js ''s1'')) (js ''c1'')"
  let ?f = "\<lambda>x. isLocked (snd x)"
  have len: "length ?items = 4"
    by (simp add: sequence_items)
  have n: "isLocked (snd (?out ! i)) = [False, True, True, False] ! i" if "i < 4" for i
  proof -
    have "map ?f ?out ! i = ?f (?out ! i)"
      using that by (intro nth_map) (simp add: GET_content_length sequence_access len)
    then show ?thesis
      by (simp only: sequence_locks)
  qed
  have r: "\<not> requirePassingQuiz (mk_chapter ''a'' 1 False False None)"
      "\<not> requirePassingQuiz (mk_chapter ''b'' 3 False False None)"
    by (simp_all add: mk_chapter_def)
  have i0: "?items ! 0 = QuizContent (mk_quiz ''q0'' 0) (Some [mk_result ''q0'' 30 1])"
    and i1: "?items ! Suc 0 = ChapterContent (mk_chapter ''a'' 1 False False None) None"
    and i2: "?items ! 2 = QuizContent (mk_quiz ''q1'' 2)
                (Some [mk_result ''q1'' 40 2, mk_result ''q1'' 60 3])"
    and i3: "?items ! 3 = ChapterContent (mk_chapter ''b'' 3 False False None) None"
    by (simp_all add: sequence_items)
  have "\<not> spec_sequential_lock ?items 0"
    using sequential_lock_nearest_quiz [OF sequence_access, of 0] n [of 0]
    by (simp add: len i0)
  moreover have "spec_sequential_lock ?items 1"
    using sequential_lock_nearest_quiz [OF sequence_access, of 1] n [of 1]
    by (simp add: len i1 required_quiz_check_def r)
  moreover have "spec_sequential_lock ?items 2"
    using sequential_lock_nearest_quiz [OF sequence_access, of 2] n [of 2]
    by (simp add: len i2)
  moreover have "\<not> spec_sequential_lock ?items 3"
    using sequential_lock_nearest_quiz [OF sequence_access, of 3] n [of 3]
    by (simp add: len i3 required_quiz_check_def r)
  ultimately show ?thesis
    using sequence_locks by simp
qed

lemma sort_key_first:
  assumes "xs \<noteq> []"
  shows "\<exists>y ys. sort_key f xs = y # ys \<and> y \<in> set xs \<and> (\<forall>z \<in> set xs. f y \<le> f z)"
proof (cases "sort_key f xs")
  case Nil
  then have "length xs = 0"
    by (metis length_sort list.size(3))
  with assms show ?thesis by simp
next
  case (Cons y ys)
  have "sorted (map f (y # ys))"
    using sorted_sort_key [of f xs] Cons by simp
  then have "\<forall>z \<in> set (y # ys). f y \<le> f z"
    by auto
  moreover have "set (y # ys) = set xs"
    using set_sort [of f xs] Cons by simp
  ultimately show ?thesis
    using Cons by auto
qed

text \<open>
  C1. What the code does for a chapter that requires passing a quiz, for a learner with
  access whose results for that quiz have distinct submission times: the chapter is locked
  exactly when there is no result or the most recently submitted result is below 50. The
  best result is not read: with 60 percent first and 40 percent later the chapter is
  locked, although the best percentage is 60.
\<close>

theorem required_quiz_uses_latest_result:
  assumes "requirePassingQuiz c" and "requiredQuizId c = Some qid" and "qid \<noteq> []"
    and "u \<noteq> []"
    and "List.find (\<lambda>q. quiz_id q = qid) (quizzes db) = Some q"
    and "distinct (map submittedAt (student_results db u qid))"
  shows "isLocked (required_quiz_check True (Some u) c (required_quiz_results db u c)
            \<lparr>isLocked = False, lockReason = None\<rparr>)
         \<longleftrightarrow> student_results db u qid = []
             \<or> (\<exists>r \<in> set (student_results db u qid).
                    (\<forall>r' \<in> set (student_results db u qid). submittedAt r' \<le> submittedAt r)
                    \<and> percentage r < 50)"
proof (cases "student_results db u qid = []")
  case True
  with assms show ?thesis
    by (simp add: required_quiz_check_def required_quiz_results_def latest_results_def
        first_result_def truthy_def)
next
  case False
  let ?rs = "student_results db u qid"
  from sort_key_first [OF False, of "\<lambda>r. - submittedAt r"]
  obtain y ys where y: "sort_key (\<lambda>r. - submittedAt r) ?rs = y # ys" "y \<in> set ?rs"
      "\<forall>z \<in> set ?rs. submittedAt z \<le> submittedAt y"
    by auto
  have locked: "isLocked (required_quiz_check True (Some u) c (required_quiz_results db u c)
            \<lparr>isLocked = False, lockReason = None\<rparr>) \<longleftrightarrow> percentage y < 50"
    using assms(1-5) y(1)
    by (simp add: required_quiz_check_def required_quiz_results_def latest_results_def
        first_result_def truthy_def)
  have "(\<exists>r \<in> set ?rs. (\<forall>r' \<in> set ?rs. submittedAt r' \<le> submittedAt r) \<and> percentage r < 50)
      \<longleftrightarrow> percentage y < 50"
  proof
    assume "\<exists>r \<in> set ?rs. (\<forall>r' \<in> set ?rs. submittedAt r' \<le> submittedAt r) \<and> percentage r < 50"
    then obtain r where r: "r \<in> set ?rs" "\<forall>r' \<in> set ?rs. submittedAt r' \<le> submittedAt r"
        "percentage r < 50"
      by blast
    from r(1,2) y(2,3) have "submittedAt r = submittedAt y"
      by (meson order_antisym)
    with assms(6) r(1) y(2) have "r = y"
      by (meson distinct_map inj_onD)
    with r(3) show "percentage y < 50" by simp
  next
    assume "percentage y < 50"
    with y(2,3) show "\<exists>r \<in> set ?rs. (\<forall>r' \<in> set ?rs. submittedAt r' \<le> submittedAt r) \<and> percentage r < 50"
      by blast
  qed
  with locked False show ?thesis by simp
qed

lemma retake_access: "content_hasAccess retake_db (Some (js ''s1'')) (js ''c1'')"
  by (simp add: content_hasAccess_def retake_db_def mk_db_def published_course_def
      course_access_def active_purchases_def course_purchases_def js_eq_simps)

lemma retake_results:
  "student_results retake_db (js ''s1'') (js ''q1'') = [mk_result ''q1'' 60 1, mk_result ''q1'' 40 2]"
  by (simp add: student_results_def retake_db_def mk_db_def mk_result_def)

lemma retake_latest:
  "latest_results retake_db (js ''s1'') (js ''q1'') = [mk_result ''q1'' 40 2]"
  by (simp add: latest_results_def retake_results mk_result_def)

lemma retake_chapter:
  "requiredQuizId (mk_chapter ''a'' 1 False True (Some ''q1'')) = Some (js ''q1'')"
  "requirePassingQuiz (mk_chapter ''a'' 1 False True (Some ''q1''))"
  by (simp_all add: mk_chapter_def)

lemma retake_quiz:
  "List.find (\<lambda>q. quiz_id q = js ''q1'') (quizzes retake_db) = Some (mk_quiz ''q1'' 2)"
  by (simp add: retake_db_def mk_db_def mk_quiz_def)

lemma retake_required:
  "required_quiz_results retake_db (js ''s1'') (mk_chapter ''a'' 1 False True (Some ''q1''))
     = Some [mk_result ''q1'' 40 2]"
  by (simp add: required_quiz_results_def retake_chapter retake_quiz retake_latest)

lemma retake_items:
  "allContentUnsorted retake_db (Some (js ''s1'')) (js ''c1'') True
     = [ChapterContent (mk_chapter ''a'' 1 False True (Some ''q1'')) (Some [mk_result ''q1'' 40 2]),
        QuizContent (mk_quiz ''q1'' 2) (Some [mk_result ''q1'' 60 1, mk_result ''q1'' 40 2])]"
proof -
  have c: "published_chapters retake_db (js ''c1'') = [mk_chapter ''a'' 1 False True (Some ''q1'')]"
    by (simp add: published_chapters_def retake_db_def mk_db_def mk_chapter_def)
  have q: "published_quizzes retake_db (js ''c1'') = [mk_quiz ''q1'' 2]"
    by (simp add: published_quizzes_def retake_db_def mk_db_def mk_quiz_def)
  have i: "quiz_id (mk_quiz ''q1'' 2) = js ''q1''"
    by (simp add: mk_quiz_def)
  show ?thesis
    by (simp add: allContentUnsorted_def c q i js_eq_simps retake_required retake_results)
       (simp add: mk_chapter_def mk_quiz_def)
qed


theorem required_quiz_uses_latest_result_witness:
  "GET_content retake_db (Some (js ''s1'')) (js ''c1'')
     = [(ChapterContent (mk_chapter ''a'' 1 False True (Some ''q1'')) (Some [mk_result ''q1'' 40 2]),
         \<lparr>isLocked = True, lockReason = Some MustPassRequiredQuiz\<rparr>),
        (QuizContent (mk_quiz ''q1'' 2) (Some [mk_result ''q1'' 60 1, mk_result ''q1'' 40 2]),
         \<lparr>isLocked = False, lockReason = None\<rparr>)]
   \<and> \<not> spec_required_quiz_lock retake_db (js ''s1'') (js ''q1'')
   \<and> isLocked (required_quiz_check True (Some (js ''s1'')) (mk_chapter ''a'' 1 False True (Some ''q1''))
        (required_quiz_results retake_db (js ''s1'') (mk_chapter ''a'' 1 False True (Some ''q1'')))
        \<lparr>isLocked = False, lockReason = None\<rparr>)"
proof -
  let ?c = "mk_chapter ''a'' 1 False True (Some ''q1'')"
  have d: "distinct (map submittedAt (student_results retake_db (js ''s1'') (js ''q1'')))"
    by (simp add: retake_results mk_result_def)
  have l: "isLocked (required_quiz_check True (Some (js ''s1'')) ?c
        (required_quiz_results retake_db (js ''s1'') ?c) \<lparr>isLocked = False, lockReason = None\<rparr>)"
    using required_quiz_uses_latest_result [OF retake_chapter(2) retake_chapter(1) js_eq_simps(3)
        js_eq_simps(2) retake_quiz d]
    by (simp add: retake_results mk_result_def)
  have s: "\<not> spec_required_quiz_lock retake_db (js ''s1'') (js ''q1'')"
    by (simp add: spec_required_quiz_lock_def retake_results mk_result_def)
  have st: "required_quiz_check True (Some (js ''s1'')) ?c (Some [mk_result ''q1'' 40 2])
        \<lparr>isLocked = False, lockReason = None\<rparr> = \<lparr>isLocked = True, lockReason = Some MustPassRequiredQuiz\<rparr>"
    by (simp add: required_quiz_check_def retake_chapter truthy_def js_eq_simps first_result_def
        mk_result_def)
  have g: "GET_content retake_db (Some (js ''s1'')) (js ''c1'')
     = [(ChapterContent ?c (Some [mk_result ''q1'' 40 2]),
         \<lparr>isLocked = True, lockReason = Some MustPassRequiredQuiz\<rparr>),
        (QuizContent (mk_quiz ''q1'' 2) (Some [mk_result ''q1'' 60 1, mk_result ''q1'' 40 2]),
         \<lparr>isLocked = False, lockReason = None\<rparr>)]"
    by (simp add: GET_content_def retake_access retake_items lock_content_def st truthy_def
        js_eq_simps)
  from g s l show ?thesis by simp
qed

text \<open>
  The first-content route reads the same single result: for the same learner it skips
  the chapter and answers with the quiz that follows it.
\<close>

lemma first_content_retake:
  "GET_first_content retake_db (Some (js ''s1'')) (js ''c1'')
     = Json \<lparr>first_id = Some (js ''q1''), first_type = Some quiz_type\<rparr>"
proof -
  let ?c = "mk_chapter ''a'' 1 False True (Some ''q1'')"
  let ?items = "allContentUnsorted retake_db (Some (js ''s1'')) (js ''c1'') True"
  have p: "published_course retake_db (js ''c1'')
      = Some \<lparr>course_id = js ''c1'', course_isPublished = True, price = Some 0\<rparr>"
    by (simp add: retake_db_def mk_db_def published_course_def)
  have a: "course_access \<lparr>course_id = js ''c1'', course_isPublished = True, price = Some 0\<rparr>
      (active_purchases retake_db (js ''c1'') (js ''s1''))"
    by (simp add: course_access_def)
  have u: "List.find (\<lambda>usr. user_id usr = js ''s1'') (users retake_db)
      = Some \<lparr>user_id = js ''s1'', studyType = None\<rparr>"
    by (simp add: retake_db_def mk_db_def)
  have c: "\<not> first_accessible True None ?items (?items ! 0)"
    by (simp add: retake_items first_accessible_def study_type_check_def truthy_def
        retake_chapter js_eq_simps first_result_def mk_result_def)
  have ne: "js ''a'' \<noteq> js ''q1''"
    by (simp add: js_def ch_def)
  have i: "findIndex (\<lambda>c. content_id c = js ''q1'') ?items = Some 1"
    by (simp add: retake_items mk_chapter_def mk_quiz_def ne)
  have q: "first_accessible True None ?items (?items ! 1)"
    by (simp add: first_accessible_def scan_from_id_def i [unfolded retake_items] retake_items
        mk_quiz_def)
  from c q have f: "List.find (first_accessible True None ?items) ?items = Some (?items ! 1)"
    by (simp add: retake_items)
  show ?thesis
    by (simp add: GET_first_content_def js_eq_simps p a u truthy_def f)
       (simp add: retake_items mk_quiz_def)
qed


end
